theory Spec2Isabelle
  imports Complex_Main "HOL-Library.Sublist"
begin

section \<open>Python strings\<close>

text \<open>
  A Python \<open>str\<close> is a sequence of Unicode code points and \<open>len\<close> counts code points,
  so a string is modelled as a list of code points. ASCII literals of the source are
  written \<open>u ''...''\<close>; the few non-ASCII literals are given by their code points.
\<close>

type_synonym pystr = "int list"

definition u :: "string \<Rightarrow> pystr" where
  "u s = map of_char s"

definition py_len :: "'a list \<Rightarrow> int" where
  "py_len xs = int (length xs)"

text \<open>The slice \<open>xs[:k]\<close>: a negative \<open>k\<close> counts from the end.\<close>

definition slice_to :: "'a list \<Rightarrow> int \<Rightarrow> 'a list" where
  "slice_to xs k = (if 0 \<le> k then take (nat k) xs else take (nat (py_len xs + k)) xs)"

text \<open>\<open>sep.join(xs)\<close>\<close>

fun join :: "pystr \<Rightarrow> pystr list \<Rightarrow> pystr" where
  "join sep [] = []"
| "join sep [x] = x"
| "join sep (x # y # ys) = x @ sep @ join sep (y # ys)"

text \<open>
  \<open>str(n)\<close> for an integer (\<open>str_nat\<close> writes the digits of a non-negative one), and
  the format \<open>{n:,}\<close> with thousands separators.
\<close>

function str_nat :: "int \<Rightarrow> pystr" where
  "str_nat n = (if n < 10 then [48 + n] else str_nat (n div 10) @ [48 + n mod 10])"
  by pat_completeness auto
termination
  by (relation "measure nat") auto

declare str_nat.simps [simp del]

definition str_int :: "int \<Rightarrow> pystr" where
  "str_int i = (if i < 0 then 45 # str_nat (- i) else str_nat i)"

function commas :: "pystr \<Rightarrow> pystr" where
  "commas ds =
     (if length ds \<le> 3 then ds
      else commas (take (length ds - 3) ds) @ [44] @ drop (length ds - 3) ds)"
  by pat_completeness auto
termination
  by (relation "measure length") auto

declare commas.simps [simp del]

definition fmt_comma :: "int \<Rightarrow> pystr" where
  "fmt_comma i = (if i < 0 then 45 # commas (str_nat (- i)) else commas (str_nat i))"

text \<open>The size in bytes of the UTF-8 encoding of a string.\<close>

definition utf8_len :: "int \<Rightarrow> int" where
  "utf8_len c = (if c < 128 then 1 else if c < 2048 then 2 else if c < 65536 then 3 else 4)"

definition utf8_size :: "pystr \<Rightarrow> int" where
  "utf8_size s = sum_list (map utf8_len s)"

text \<open>
  \<open>s.lower()\<close>. The source compares lowered text with ASCII keywords only, so what
  matters is which code points lower to ASCII letters: \<open>A..Z\<close>, the Kelvin sign
  \<open>U+212A\<close> (to \<open>k\<close>) and \<open>U+0130\<close> (to \<open>i\<close> and the combining dot \<open>U+0307\<close>). Every
  other code point lowers to a non-ASCII one and is left as it is.
\<close>

definition lower_char :: "int \<Rightarrow> pystr" where
  "lower_char c =
     (if 65 \<le> c \<and> c \<le> 90 then [c + 32]
      else if c = 8490 then [107]
      else if c = 304 then [105, 775]
      else [c])"

definition lower :: "pystr \<Rightarrow> pystr" where
  "lower s = concat (map lower_char s)"

text \<open>\<open>sub in s\<close> for strings, and \<open>s.count(sub)\<close> (occurrences that do not overlap).\<close>

fun str_in :: "pystr \<Rightarrow> pystr \<Rightarrow> bool" where
  "str_in sub [] = (sub = [])"
| "str_in sub (c # cs) = (prefix sub (c # cs) \<or> str_in sub cs)"

function str_count :: "pystr \<Rightarrow> pystr \<Rightarrow> int" where
  "str_count s sub =
     (if sub = [] then py_len s + 1
      else if s = [] then 0
      else if prefix sub s then 1 + str_count (drop (length sub) s) sub
      else str_count (tl s) sub)"
  by pat_completeness auto
termination
  by (relation "measure (\<lambda>(s, sub). length s)") auto

declare str_count.simps [simp del]

text \<open>
  \<open>len(re.findall(pattern, s))\<close>, for a pattern given by a function that returns the rest
  of the string after a match at its start. The search resumes after a match and moves on
  by one character where there is none. No pattern of the source matches the empty
  string, so a match consumes at least one character.
\<close>

function findall_count :: "(pystr \<Rightarrow> pystr option) \<Rightarrow> pystr \<Rightarrow> int" where
  "findall_count m s =
     (if s = [] then 0
      else case m s of
        Some rest \<Rightarrow>
          (if length rest < length s then 1 + findall_count m rest else findall_count m (tl s))
      | None \<Rightarrow> findall_count m (tl s))"
  by pat_completeness auto
termination
  by (relation "measure (\<lambda>(m, s). length s)") auto

declare findall_count.simps [simp del]

text \<open>
  The whitespace class of a \<open>str\<close> pattern is the Unicode one: the code points for which
  \<open>str.isspace\<close> holds.
\<close>

definition is_space :: "int \<Rightarrow> bool" where
  "is_space c =
     ((9 \<le> c \<and> c \<le> 13) \<or> (28 \<le> c \<and> c \<le> 32) \<or> c = 133 \<or> c = 160 \<or> c = 5760
      \<or> (8192 \<le> c \<and> c \<le> 8202) \<or> c = 8232 \<or> c = 8233 \<or> c = 8239 \<or> c = 8287
      \<or> c = 12288)"

section \<open>response\_limiter.py\<close>

text \<open>
  The dictionaries handed to the limiter are rows of the store. A row is a record with one
  optional field per key the limiter reads: \<open>None\<close> is an absent key, and a present key
  holds a value of the column's type (a string or an integer).
\<close>

record search_result =
  r_full_name :: "pystr option"
  r_stars :: "int option"
  r_language :: "pystr option"
  r_description :: "pystr option"
  r_path :: "pystr option"
  r_snippet :: "pystr option"

record doc_row =
  d_path :: "pystr option"
  d_content :: "pystr option"

record list_item =
  i_name :: "pystr option"
  i_stars :: "int option"
  i_category :: "pystr option"
  i_description :: "pystr option"

text \<open>\<open>d.get(k, default)\<close>, and the truth value of \<open>d.get(k)\<close> for a string and an integer.\<close>

definition get_or :: "'a option \<Rightarrow> 'a \<Rightarrow> 'a" where
  "get_or v d = (case v of None \<Rightarrow> d | Some x \<Rightarrow> x)"

definition truthy_str :: "pystr option \<Rightarrow> bool" where
  "truthy_str v = (case v of None \<Rightarrow> False | Some s \<Rightarrow> s \<noteq> [])"

definition truthy_int :: "int option \<Rightarrow> bool" where
  "truthy_int v = (case v of None \<Rightarrow> False | Some n \<Rightarrow> n \<noteq> 0)"

definition MAX_RESPONSE_SIZE :: int where
  "MAX_RESPONSE_SIZE = 500 * 1024"

definition MAX_CONTENT_PREVIEW :: int where
  "MAX_CONTENT_PREVIEW = 1000"

definition MAX_SEARCH_RESULTS :: int where
  "MAX_SEARCH_RESULTS = 20"

definition truncate_text :: "pystr \<Rightarrow> int \<Rightarrow> pystr" where
  "truncate_text text max_length =
     (if py_len text \<le> max_length then text
      else slice_to text (max_length - 4) @ u '' ...'')"

subsection \<open>estimate\_size\<close>

text \<open>
  \<open>estimate_size(obj)\<close> is \<open>len(json.dumps(obj))\<close>. \<open>json.dumps\<close> with its defaults
  writes a dictionary as \<open>{"key": value, ...}\<close>, an integer in decimal, and a string in
  double quotes, where the double quote and the backslash are preceded by a backslash,
  the control characters are written as backslash and one of \<open>n r t b f\<close> or as
  backslash, \<open>u\<close> and four hexadecimal digits, and so is every character outside
  \<open>' '..'~'\<close> (as a surrogate pair above \<open>0xFFFF\<close>). It never fails on such a row,
  so the \<open>except\<close> branch is not reached. Code point 92 is the backslash.
\<close>

definition hex_digit :: "int \<Rightarrow> int" where
  "hex_digit d = (if d < 10 then 48 + d else 87 + d)"

definition hex4 :: "int \<Rightarrow> pystr" where
  "hex4 n = [hex_digit (n div 4096 mod 16), hex_digit (n div 256 mod 16),
             hex_digit (n div 16 mod 16), hex_digit (n mod 16)]"

definition json_escape :: "int \<Rightarrow> pystr" where
  "json_escape c =
     (if c = 34 then [92, 34]
      else if c = 92 then [92, 92]
      else if c = 10 then 92 # u ''n''
      else if c = 13 then 92 # u ''r''
      else if c = 9 then 92 # u ''t''
      else if c = 8 then 92 # u ''b''
      else if c = 12 then 92 # u ''f''
      else if 32 \<le> c \<and> c \<le> 126 then [c]
      else if c < 65536 then 92 # u ''u'' @ hex4 c
      else 92 # u ''u'' @ hex4 (55296 + (c - 65536) div 1024)
         @ 92 # u ''u'' @ hex4 (56320 + (c - 65536) mod 1024))"

definition json_str :: "pystr \<Rightarrow> pystr" where
  "json_str s = [34] @ concat (map json_escape s) @ [34]"

definition json_item :: "string \<Rightarrow> pystr option \<Rightarrow> pystr list" where
  "json_item k v = (case v of None \<Rightarrow> [] | Some x \<Rightarrow> [json_str (u k) @ u '': '' @ x])"

definition json_dumps :: "search_result \<Rightarrow> pystr" where
  "json_dumps r =
     u ''{'' @ join (u '', '')
       (json_item ''full_name'' (map_option json_str (r_full_name r))
      @ json_item ''stars'' (map_option str_int (r_stars r))
      @ json_item ''language'' (map_option json_str (r_language r))
      @ json_item ''description'' (map_option json_str (r_description r))
      @ json_item ''path'' (map_option json_str (r_path r))
      @ json_item ''snippet'' (map_option json_str (r_snippet r)))
     @ u ''}''"

definition estimate_size :: "search_result \<Rightarrow> int" where
  "estimate_size obj = py_len (json_dumps obj)"

subsection \<open>limit\_search\_results\<close>

text \<open>
  The loop over \<open>results[:MAX_SEARCH_RESULTS]\<close>, with \<open>total_size\<close> as accumulator; the
  \<open>break\<close> ends the list. \<open>MAX_RESPONSE_SIZE * 0.8\<close> is the float \<open>409600.0\<close>, which the
  rational product gives exactly.
\<close>

definition truncate_fields :: "search_result \<Rightarrow> search_result" where
  "truncate_fields result =
     result\<lparr>r_snippet := map_option (\<lambda>s. truncate_text s 200) (r_snippet result),
            r_description := map_option (\<lambda>s. truncate_text s 100) (r_description result)\<rparr>"

fun limit_loop :: "int \<Rightarrow> search_result list \<Rightarrow> search_result list" where
  "limit_loop total_size [] = []"
| "limit_loop total_size (result # rest) =
     (let result' = truncate_fields result;
          result_size = estimate_size result'
      in if rat_of_int (total_size + result_size) > rat_of_int MAX_RESPONSE_SIZE * 0.8 then []
         else result' # limit_loop (total_size + result_size) rest)"

definition limit_search_results :: "search_result list \<Rightarrow> search_result list" where
  "limit_search_results results = limit_loop 0 (slice_to results MAX_SEARCH_RESULTS)"

definition limit_document_content :: "pystr \<Rightarrow> pystr" where
  "limit_document_content content = truncate_text content MAX_CONTENT_PREVIEW"

subsection \<open>format\_search\_response\<close>

text \<open>
  The code points of the symbols in the source's literals: the magnifying glass
  \<open>U+1F50D\<close>, the package \<open>U+1F4E6\<close>, the star \<open>U+2B50\<close>, the books \<open>U+1F4DA\<close>,
  the page \<open>U+1F4C4\<close> and the bullet \<open>U+2022\<close>. Code point 39 is the single quote and
  10 the newline.
\<close>

definition result_lines :: "search_result \<Rightarrow> pystr list" where
  "result_lines r =
     [[128230] @ u '' '' @ get_or (r_full_name r) (u ''Unknown'') @ u '' '' @ [11088] @ u '' ''
        @ fmt_comma (get_or (r_stars r) 0)]
     @ (if truthy_str (r_language r) then [u ''   Language: '' @ the (r_language r)] else [])
     @ (if truthy_str (r_path r) then [u ''   File: '' @ the (r_path r)] else [])
     @ (if truthy_str (r_snippet r) then [u ''   Preview: '' @ the (r_snippet r)] else [])
     @ [[]]"

definition format_search_response :: "search_result list \<Rightarrow> pystr \<Rightarrow> pystr" where
  "format_search_response results query =
     (if results = [] then u ''No results found for '' @ [39] @ query @ [39]
      else
        let limited_results = limit_search_results results;
            output = [[128269] @ u '' Search Results for '' @ [39] @ query @ [39],
                      u ''Showing '' @ str_int (py_len limited_results) @ u '' of ''
                        @ str_int (py_len results) @ u '' results'' @ [10]]
                     @ concat (map result_lines limited_results);
            result_text = join [10] output
        in if py_len result_text > MAX_RESPONSE_SIZE
           then slice_to result_text (MAX_RESPONSE_SIZE - 100)
                  @ [10, 10] @ u ''[Response truncated due to size limits]''
           else result_text)"

subsection \<open>format\_docs\_response\<close>

definition doc_section :: "doc_row \<Rightarrow> pystr list" where
  "doc_section doc =
     [replicate 50 61,
      [128196] @ u '' '' @ get_or (d_path doc) (u ''Unknown''),
      replicate 50 61,
      limit_document_content (get_or (d_content doc) [])]
     @ (if get_or (d_content doc) [] \<noteq> [] \<and> py_len (the (d_content doc)) > MAX_CONTENT_PREVIEW
        then [[10] @ u ''[Content truncated - use specific file tools to view full content]'']
        else [])
     @ [[]]"

definition omitted_marker :: "int \<Rightarrow> pystr" where
  "omitted_marker n = [10] @ u ''['' @ str_int n @ u '' more documents not shown due to size limits]''"

text \<open>
  The loop \<open>for i, doc in enumerate(docs)\<close>: \<open>n\<close> is \<open>len(docs)\<close>, and the result is what
  the loop appends to \<open>output\<close>. \<open>MAX_RESPONSE_SIZE * 0.9\<close> is the float \<open>460800.0\<close>.
\<close>

fun docs_loop :: "int \<Rightarrow> int \<Rightarrow> int \<Rightarrow> doc_row list \<Rightarrow> pystr list" where
  "docs_loop n i total_size [] = []"
| "docs_loop n i total_size (doc # rest) =
     (let section = doc_section doc;
          section_size = py_len (join [10] section)
      in if rat_of_int (total_size + section_size) > rat_of_int MAX_RESPONSE_SIZE * 0.9
         then [omitted_marker (n - i)]
         else section @ docs_loop n (i + 1) (total_size + section_size) rest)"

definition docs_header :: "pystr \<Rightarrow> pystr" where
  "docs_header repo_name = [128218] @ u '' Documentation for '' @ repo_name @ [10]"

definition format_docs_response :: "doc_row list \<Rightarrow> pystr \<Rightarrow> pystr" where
  "format_docs_response docs repo_name =
     (if docs = [] then u ''No documentation found for '' @ [39] @ repo_name @ [39]
      else join [10] (docs_header repo_name
             # docs_loop (py_len docs) 0 (py_len (docs_header repo_name)) docs))"

subsection \<open>format\_list\_response\<close>

definition item_line :: "list_item \<Rightarrow> pystr" where
  "item_line item =
     [8226] @ u '' '' @ get_or (i_name item) (u ''Unknown'')
     @ (if truthy_int (i_stars item) then u '' '' @ [11088] @ u '' '' @ fmt_comma (the (i_stars item))
        else [])
     @ (if truthy_str (i_category item) then u '' ['' @ the (i_category item) @ u '']'' else [])
     @ (if truthy_str (i_description item)
        then u '' - '' @ truncate_text (the (i_description item)) 60 else [])"

definition format_list_response :: "list_item list \<Rightarrow> pystr \<Rightarrow> pystr" where
  "format_list_response items title =
     join [10]
       ([title @ [10]]
        @ map item_line (slice_to items 50)
        @ (if py_len items > 50
           then [[10] @ u ''... and '' @ str_int (py_len items - 50) @ u '' more'']
           else []))"

subsection \<open>Inputs used below\<close>

definition result_small :: search_result where
  "result_small = \<lparr>r_full_name = Some (u ''a/b''), r_stars = Some 5, r_language = None,
     r_description = None, r_path = Some (u ''README.md''), r_snippet = Some (u ''text'')\<rparr>"

definition result_long_path :: search_result where
  "result_long_path = \<lparr>r_full_name = Some (u ''a/b''), r_stars = Some 5, r_language = None,
     r_description = None, r_path = Some (replicate 500000 97), r_snippet = Some (u ''text'')\<rparr>"

definition doc_small :: doc_row where
  "doc_small = \<lparr>d_path = Some (u ''README.md''), d_content = Some (u ''hello'')\<rparr>"

definition doc_long_path :: doc_row where
  "doc_long_path = \<lparr>d_path = Some (replicate 500000 97), d_content = Some (u ''x'')\<rparr>"

definition item_long_name :: list_item where
  "item_long_name = \<lparr>i_name = Some (replicate 600000 97), i_stars = None, i_category = None,
     i_description = None\<rparr>"

section \<open>quality\_scorer.py\<close>

text \<open>
  Python floats are modelled as exact rationals: a decimal literal of the source is the
  rational it denotes.

  \<open>repo_data\<close> is a dictionary, read with \<open>get\<close>: a record of optional fields, \<open>None\<close> for
  an absent key. Of \<open>license\<close> only the truth value is read. A document is a row with
  its \<open>path\<close> (which the scorer reads as \<open>doc['path']\<close>, so it is there) and an optional
  \<open>content\<close>.
\<close>

record repo_data =
  rd_pushed_at :: "pystr option"
  rd_stargazers_count :: "int option"
  rd_topics :: "pystr list option"
  rd_description :: "pystr option"
  rd_license :: "pystr option"

record document =
  path :: pystr
  content :: "pystr option"

record quality_metrics =
  m_completeness :: rat
  m_freshness :: rat
  m_structure :: rat
  m_examples :: rat
  m_community :: rat
  m_accessibility :: rat

record quality_result =
  total_score :: rat
  metrics :: quality_metrics
  grade :: pystr

definition weights :: quality_metrics where
  "weights = \<lparr>m_completeness = 0.25, m_freshness = 0.20, m_structure = 0.20, m_examples = 0.15,
     m_community = 0.10, m_accessibility = 0.10\<rparr>"

definition credit :: "bool \<Rightarrow> rat \<Rightarrow> rat" where
  "credit b x = (if b then x else 0)"

definition score_completeness :: "repo_data \<Rightarrow> document list \<Rightarrow> rat" where
  "score_completeness rd documents =
     (let doc_paths = map (\<lambda>doc. lower (path doc)) documents;
          joined = join (u '' '') doc_paths;
          score = 0
            + credit (list_ex (\<lambda>p. str_in (u ''readme'') p) doc_paths) 0.3
            + credit (list_ex (\<lambda>p. list_ex (\<lambda>indicator. str_in indicator p)
                        [u ''docs/'', u ''documentation/'', u ''wiki/'', u ''guide/'']) doc_paths) 0.2
            + credit (list_ex (\<lambda>p. str_in (u ''api'') p) doc_paths) 0.1
            + credit (list_ex (\<lambda>keyword. str_in keyword joined)
                        [u ''install'', u ''setup'', u ''getting-started'']) 0.1
            + credit (list_ex (\<lambda>p. str_in (u ''contributing'') p) doc_paths) 0.1
            + credit (list_ex (\<lambda>keyword. str_in keyword joined)
                        [u ''example'', u ''tutorial'', u ''sample'']) 0.1
            + credit (list_ex (\<lambda>p. str_in (u ''changelog'') p \<or> str_in (u ''history'') p)
                        doc_paths) 0.1
      in min score 1.0)"

text \<open>
  \<open>days_since\<close> stands for the clock: applied to the first ten characters of \<open>pushed_at\<close>
  it is the number of days from that date to now, or \<open>None\<close> when the text is not a date
  (the \<open>except\<close> branch).
\<close>

definition score_freshness :: "(pystr \<Rightarrow> int option) \<Rightarrow> repo_data \<Rightarrow> document list \<Rightarrow> rat" where
  "score_freshness days_since rd documents =
     (let last_push = get_or (rd_pushed_at rd) []
      in if last_push \<noteq> [] then
           (case days_since (slice_to last_push 10) of
              Some days_ago \<Rightarrow>
                (if days_ago < 30 then 1.0
                 else if days_ago < 90 then 0.8
                 else if days_ago < 180 then 0.6
                 else if days_ago < 365 then 0.4
                 else 0.2)
            | None \<Rightarrow> 0.5)
         else 0.5)"

text \<open>The pattern \<open>^#{1,6}\s\<close> with \<open>re.MULTILINE\<close>: \<open>header_at\<close> is a match at a line start.\<close>

definition header_at :: "pystr \<Rightarrow> bool" where
  "header_at s =
     (let k = length (takeWhile (\<lambda>c. c = 35) s)
      in 1 \<le> k \<and> k \<le> 6 \<and> (case drop k s of [] \<Rightarrow> False | c # _ \<Rightarrow> is_space c))"

fun header_scan :: "bool \<Rightarrow> pystr \<Rightarrow> int" where
  "header_scan line_start [] = 0"
| "header_scan line_start (c # cs) =
     (if line_start \<and> header_at (c # cs) then 1 else 0) + header_scan (c = 10) cs"

definition header_count :: "pystr \<Rightarrow> int" where
  "header_count s = header_scan True s"

definition content_combined :: "int \<Rightarrow> document list \<Rightarrow> pystr" where
  "content_combined n documents =
     join (u '' '') (map (\<lambda>doc. slice_to (get_or (content doc) []) n) documents)"

definition score_structure :: "document list \<Rightarrow> rat" where
  "score_structure documents =
     (let score0 = credit (py_len documents > 5) 0.3;
          depths = map (\<lambda>doc. str_count (path doc) (u ''/'')) documents;
          depth_scores = map (\<lambda>depth. min (rat_of_int depth * 0.1) 0.3)
                           (filter (\<lambda>depth. depth > 0) depths);
          score1 = score0 + (if depth_scores \<noteq> []
                             then sum_list depth_scores / rat_of_int (py_len depth_scores) else 0);
          combined = content_combined 1000 documents;
          score2 = score1 + credit (list_ex (\<lambda>indicator. str_in indicator (lower combined))
                               [u ''table of contents'', u ''index'', u ''## contents'']) 0.2;
          score3 = score2 + credit (header_count combined > 10) 0.2
      in min score3 1.0)"

text \<open>
  The pattern for a fenced code block (three backquotes, as few characters as possible,
  three backquotes) and the one for an inline snippet (a backquote, one or more other
  characters, a backquote). Code point 96 is the backquote.
\<close>

fun skip_to_fence :: "pystr \<Rightarrow> pystr option" where
  "skip_to_fence [] = None"
| "skip_to_fence (c # cs) =
     (if prefix [96, 96, 96] (c # cs) then Some (drop 3 (c # cs)) else skip_to_fence cs)"

definition match_code_block :: "pystr \<Rightarrow> pystr option" where
  "match_code_block s = (if prefix [96, 96, 96] s then skip_to_fence (drop 3 s) else None)"

definition match_inline_code :: "pystr \<Rightarrow> pystr option" where
  "match_inline_code s =
     (case s of
        [] \<Rightarrow> None
      | c # cs \<Rightarrow>
          (let run = takeWhile (\<lambda>d. d \<noteq> 96) cs
           in if c = 96 \<and> run \<noteq> [] \<and> drop (length run) cs \<noteq> []
              then Some (drop (length run + 1) cs) else None))"

definition score_examples :: "document list \<Rightarrow> rat" where
  "score_examples documents =
     (let combined = content_combined 5000 documents;
          code_blocks = findall_count match_code_block combined;
          score1 = 0 + min (rat_of_int code_blocks * 0.05) 0.4;
          keyword_count = sum_list (map (\<lambda>keyword. str_count (lower combined) keyword)
                            [u ''example'', u ''sample'', u ''demo'', u ''tutorial'',
                             u ''quickstart'', u ''getting started'']);
          score2 = score1 + min (rat_of_int keyword_count * 0.02) 0.3;
          score3 = score2 + credit (list_ex (\<lambda>keyword. str_in keyword (lower combined))
                               [u ''playground'', u ''codesandbox'', u ''stackblitz'', u ''demo'']) 0.2;
          inline_code = findall_count match_inline_code combined;
          score4 = score3 + min (rat_of_int inline_code * 0.01) 0.1
      in min score4 1.0)"

definition score_community :: "repo_data \<Rightarrow> rat" where
  "score_community rd =
     (let stars = get_or (rd_stargazers_count rd) 0;
          score = (if stars > 10000 then 0.4
                   else if stars > 1000 then 0.3
                   else if stars > 100 then 0.2
                   else if stars > 10 then 0.1
                   else 0)
            + credit (get_or (rd_topics rd) [] \<noteq> []) 0.2
            + credit (truthy_str (rd_description rd)) 0.2
            + credit (truthy_str (rd_license rd)) 0.2
      in min score 1.0)"

definition score_accessibility :: "document list \<Rightarrow> rat" where
  "score_accessibility documents =
     (let score1 = credit (list_ex (\<lambda>doc. lower (path doc)
                               \<in> set [u ''readme.md'', u ''readme.rst'', u ''readme.txt''])
                             documents) 0.4;
          matching_files = py_len (filter (\<lambda>doc. list_ex (\<lambda>name. str_in name (lower (path doc)))
                               [u ''install'', u ''setup'', u ''guide'', u ''tutorial'', u ''api'',
                                u ''reference'']) documents);
          score2 = score1 + min (rat_of_int matching_files * 0.1) 0.3;
          score3 = score2 + (if 3 \<le> py_len documents \<and> py_len documents \<le> 20 then 0.3
                             else if py_len documents > 20 then 0.1 else 0)
      in min score3 1.0)"

definition get_grade :: "rat \<Rightarrow> pystr" where
  "get_grade score =
     (if score \<ge> 0.9 then u ''A+''
      else if score \<ge> 0.85 then u ''A''
      else if score \<ge> 0.80 then u ''A-''
      else if score \<ge> 0.75 then u ''B+''
      else if score \<ge> 0.70 then u ''B''
      else if score \<ge> 0.65 then u ''B-''
      else if score \<ge> 0.60 then u ''C+''
      else if score \<ge> 0.55 then u ''C''
      else if score \<ge> 0.50 then u ''C-''
      else if score \<ge> 0.40 then u ''D''
      else u ''F'')"

text \<open>
  \<open>round(x, 2)\<close>, to the nearest multiple of 0.01, a tie to the even one.
\<close>

definition round2 :: "rat \<Rightarrow> rat" where
  "round2 x =
     (let y = x * 100; f = floor y
      in rat_of_int (if y - rat_of_int f < 1/2 then f
                     else if y - rat_of_int f > 1/2 then f + 1
                     else if even f then f else f + 1) / 100)"

definition weighted_total :: "quality_metrics \<Rightarrow> rat" where
  "weighted_total scores =
       m_completeness scores * m_completeness weights
     + m_freshness scores * m_freshness weights
     + m_structure scores * m_structure weights
     + m_examples scores * m_examples weights
     + m_community scores * m_community weights
     + m_accessibility scores * m_accessibility weights"

definition score_repository ::
    "(pystr \<Rightarrow> int option) \<Rightarrow> repo_data \<Rightarrow> document list \<Rightarrow> quality_result" where
  "score_repository days_since rd documents =
     (let scores = \<lparr>m_completeness = score_completeness rd documents,
                     m_freshness = score_freshness days_since rd documents,
                     m_structure = score_structure documents,
                     m_examples = score_examples documents,
                     m_community = score_community rd,
                     m_accessibility = score_accessibility documents\<rparr>;
          total = weighted_total scores
      in \<lparr>total_score = round2 total, metrics = scores, grade = get_grade total\<rparr>)"

subsection \<open>A repository with three documents\<close>

text \<open>
  The README holds the heading "## Table of Contents" and two fenced code blocks; the
  other two documents lie under \<open>docs/\<close>. The repository has no \<open>pushed_at\<close>.
\<close>

definition example_readme :: pystr where
  "example_readme =
     u ''# Project'' @ [10, 10] @ u ''## Table of Contents'' @ [10, 10]
     @ [96, 96, 96] @ u ''python'' @ [10] @ u ''import project'' @ [10] @ [96, 96, 96] @ [10, 10]
     @ [96, 96, 96] @ u ''bash'' @ [10] @ u ''pip install project'' @ [10] @ [96, 96, 96] @ [10]"

definition example_documents :: "document list" where
  "example_documents =
     [\<lparr>path = u ''README.md'', content = Some example_readme\<rparr>,
      \<lparr>path = u ''docs/install.md'', content = Some (u ''# Installation'')\<rparr>,
      \<lparr>path = u ''docs/api.md'', content = Some (u ''# API'')\<rparr>]"

definition example_repo :: repo_data where
  "example_repo = \<lparr>rd_pushed_at = None, rd_stargazers_count = Some 15000,
     rd_topics = Some [u ''documentation''], rd_description = Some (u ''A project''),
     rd_license = Some (u ''MIT'')\<rparr>"

section \<open>database.py\<close>

text \<open>
  The store is an SQLite database; its tables are modelled as lists of rows, in the order
  of insertion, and each statement of the source by its effect on them. Integer primary
  keys are row ids: a new row gets one more than the largest in the table. Timestamps
  (\<open>indexed_at\<close>, \<open>last_indexed\<close>, \<open>created_at\<close>) are left out. A nullable column is an
  \<open>option\<close>.
\<close>

datatype db_error = KeyError | IntegrityError | OperationalError

text \<open>
  A value under a key of a Python dictionary: the key is absent, or holds \<open>None\<close>, or a
  value. \<open>d.get(k)\<close> and \<open>d.get(k, default)\<close> give the value bound as an SQL parameter,
  \<open>None\<close> being \<open>NULL\<close>.
\<close>

datatype 'a pyval = Absent | PyNone | Val 'a

fun dict_get :: "'a pyval \<Rightarrow> 'a option" where
  "dict_get Absent = None"
| "dict_get PyNone = None"
| "dict_get (Val x) = Some x"

fun dict_get_default :: "'a pyval \<Rightarrow> 'a \<Rightarrow> 'a option" where
  "dict_get_default Absent d = Some d"
| "dict_get_default PyNone d = None"
| "dict_get_default (Val x) d = Some x"

text \<open>
  The columns \<open>quality_metrics\<close>, \<open>doc_paths\<close> and \<open>topics\<close> hold the text
  \<open>json.dumps(value)\<close>; the model keeps the value (\<open>None\<close> for the text \<open>null\<close>).
\<close>

record repository =
  repo_id :: int
  repo_owner :: pystr
  repo_name :: pystr
  repo_full_name :: pystr
  repo_stars :: "int option"
  repo_language :: "pystr option"
  repo_category :: "pystr option"
  repo_description :: "pystr option"
  repo_source :: pystr
  repo_quality_score :: "rat option"
  repo_quality_grade :: "pystr option"
  repo_quality_metrics :: "(pystr \<times> rat) list option"
  repo_priority :: "pystr option"
  repo_doc_paths :: "pystr list option"
  repo_topics :: "pystr list option"

record document_row =
  doc_id :: int
  doc_repo_id :: int
  doc_path :: pystr
  doc_content :: pystr
  doc_content_hash :: pystr

record fts_row =
  fts_rowid :: int
  fts_repo_full_name :: "pystr option"
  fts_path :: pystr
  fts_content :: pystr

record database =
  repositories :: "repository list"
  documents :: "document_row list"
  documents_fts :: "fts_row list"

definition empty_database :: database where
  "empty_database = \<lparr>repositories = [], documents = [], documents_fts = []\<rparr>"

definition next_rowid :: "int list \<Rightarrow> int" where
  "next_rowid ids = foldr max ids 0 + 1"

subsection \<open>upsert\_repository\<close>

record repo_dict =
  in_owner :: "pystr pyval"
  in_name :: "pystr pyval"
  in_full_name :: "pystr pyval"
  in_stars :: "int pyval"
  in_language :: "pystr pyval"
  in_category :: "pystr pyval"
  in_description :: "pystr pyval"
  in_source :: "pystr pyval"
  in_quality_score :: "rat pyval"
  in_quality_grade :: "pystr pyval"
  in_quality_metrics :: "(pystr \<times> rat) list pyval"
  in_priority :: "pystr pyval"
  in_doc_paths :: "pystr list pyval"
  in_topics :: "pystr list pyval"

text \<open>\<open>COALESCE(excluded.c, c)\<close>\<close>

definition coalesce :: "'a option \<Rightarrow> 'a option \<Rightarrow> 'a option" where
  "coalesce x y = (case x of Some v \<Rightarrow> Some v | None \<Rightarrow> y)"

text \<open>The \<open>DO UPDATE SET\<close> clause, applied to the stored row.\<close>

definition do_update :: "repo_dict \<Rightarrow> repository \<Rightarrow> repository" where
  "do_update d r =
     r\<lparr>repo_stars := dict_get_default (in_stars d) 0,
       repo_language := dict_get (in_language d),
       repo_category := coalesce (dict_get (in_category d)) (repo_category r),
       repo_description := coalesce (dict_get (in_description d)) (repo_description r),
       repo_quality_score := dict_get_default (in_quality_score d) 0.5,
       repo_quality_grade := dict_get_default (in_quality_grade d) (u ''C''),
       repo_quality_metrics := dict_get_default (in_quality_metrics d) [],
       repo_priority := dict_get_default (in_priority d) (u ''medium''),
       repo_doc_paths := dict_get_default (in_doc_paths d) [],
       repo_topics := dict_get_default (in_topics d) []\<rparr>"

definition new_repository :: "int \<Rightarrow> pystr \<Rightarrow> pystr \<Rightarrow> pystr \<Rightarrow> pystr \<Rightarrow> repo_dict \<Rightarrow> repository" where
  "new_repository i owner name full_name source d =
     \<lparr>repo_id = i, repo_owner = owner, repo_name = name, repo_full_name = full_name,
      repo_stars = dict_get_default (in_stars d) 0,
      repo_language = dict_get (in_language d),
      repo_category = dict_get (in_category d),
      repo_description = dict_get (in_description d),
      repo_source = source,
      repo_quality_score = dict_get_default (in_quality_score d) 0.5,
      repo_quality_grade = dict_get_default (in_quality_grade d) (u ''C''),
      repo_quality_metrics = dict_get_default (in_quality_metrics d) [],
      repo_priority = dict_get_default (in_priority d) (u ''medium''),
      repo_doc_paths = dict_get_default (in_doc_paths d) [],
      repo_topics = dict_get_default (in_topics d) []\<rparr>"

definition same_identity :: "pystr \<Rightarrow> pystr \<Rightarrow> repository \<Rightarrow> bool" where
  "same_identity owner name r = (repo_owner r = owner \<and> repo_name r = name)"

text \<open>
  \<open>repo_data['owner']\<close>, \<open>['name']\<close> and \<open>['full_name']\<close> raise \<open>KeyError\<close> for an absent
  key. The statement fails on a \<open>NULL\<close> in a \<open>NOT NULL\<close> column and on a \<open>source\<close> outside
  the \<open>CHECK\<close>, before uniqueness is looked at. A row with the same \<open>(owner, name)\<close> is
  updated; otherwise the row is inserted, unless its \<open>full_name\<close> is taken. The value
  returned by the source, \<open>cursor.lastrowid\<close>, is not modelled.
\<close>

definition upsert_repository :: "database \<Rightarrow> repo_dict \<Rightarrow> db_error + database" where
  "upsert_repository db d =
     (if in_owner d = Absent \<or> in_name d = Absent \<or> in_full_name d = Absent then Inl KeyError
      else
        case (dict_get (in_owner d), dict_get (in_name d), dict_get (in_full_name d),
              dict_get_default (in_source d) (u ''discovered'')) of
          (Some owner, Some name, Some full_name, Some source) \<Rightarrow>
            if source \<noteq> u ''curated'' \<and> source \<noteq> u ''discovered'' then Inl IntegrityError
            else if list_ex (same_identity owner name) (repositories db)
            then Inr (db\<lparr>repositories :=
                        map (\<lambda>r. if same_identity owner name r then do_update d r else r)
                          (repositories db)\<rparr>)
            else if list_ex (\<lambda>r. repo_full_name r = full_name) (repositories db)
            then Inl IntegrityError
            else Inr (db\<lparr>repositories := repositories db
                        @ [new_repository (next_rowid (map repo_id (repositories db)))
                             owner name full_name source d]\<rparr>)
        | _ \<Rightarrow> Inl IntegrityError)"

subsection \<open>add\_document and the triggers\<close>

text \<open>
  An insertion into \<open>documents_fts\<close> that names no row id gets the next one. The trigger
  \<open>documents_ai\<close> inserts one index row for each repository with the id of the new
  document; \<open>documents_au\<close> rewrites the index row whose row id is the id of the updated
  document, with the full name given by a scalar subquery (\<open>NULL\<close> without a repository);
  \<open>documents_ad\<close> deletes the index row whose row id is the id of the deleted document.
\<close>

definition fts_insert :: "fts_row list \<Rightarrow> pystr option \<times> pystr \<times> pystr \<Rightarrow> fts_row list" where
  "fts_insert fts v =
     (case v of (full_name, p, c) \<Rightarrow>
        fts @ [\<lparr>fts_rowid = next_rowid (map fts_rowid fts), fts_repo_full_name = full_name,
                 fts_path = p, fts_content = c\<rparr>])"

definition documents_ai :: "database \<Rightarrow> document_row \<Rightarrow> database" where
  "documents_ai db new =
     db\<lparr>documents_fts :=
          foldl fts_insert (documents_fts db)
            (map (\<lambda>r. (Some (repo_full_name r), doc_path new, doc_content new))
               (filter (\<lambda>r. repo_id r = doc_repo_id new) (repositories db)))\<rparr>"

definition documents_au :: "database \<Rightarrow> document_row \<Rightarrow> database" where
  "documents_au db new =
     db\<lparr>documents_fts :=
          map (\<lambda>f. if fts_rowid f = doc_id new
                    then f\<lparr>fts_repo_full_name :=
                              map_option repo_full_name
                                (find (\<lambda>r. repo_id r = doc_repo_id new) (repositories db)),
                            fts_path := doc_path new, fts_content := doc_content new\<rparr>
                    else f)
            (documents_fts db)\<rparr>"

definition documents_ad :: "database \<Rightarrow> document_row \<Rightarrow> database" where
  "documents_ad db old =
     db\<lparr>documents_fts := filter (\<lambda>f. fts_rowid f \<noteq> doc_id old) (documents_fts db)\<rparr>"

text \<open>
  \<open>add_document\<close>: the insertion with \<open>ON CONFLICT(repo_id, path) DO UPDATE\<close>. The
  connection never turns \<open>PRAGMA foreign_keys\<close> on, so SQLite does not enforce the foreign
  key of \<open>repo_id\<close>, and the statement succeeds for every \<open>repo_id\<close>.
\<close>

definition add_document :: "database \<Rightarrow> int \<Rightarrow> pystr \<Rightarrow> pystr \<Rightarrow> pystr \<Rightarrow> database" where
  "add_document db rid p c h =
     (case find (\<lambda>d. doc_repo_id d = rid \<and> doc_path d = p) (documents db) of
        Some old \<Rightarrow>
          (let new = old\<lparr>doc_content := c, doc_content_hash := h\<rparr>
           in documents_au
                (db\<lparr>documents := map (\<lambda>d. if doc_id d = doc_id old then new else d)
                                    (documents db)\<rparr>) new)
      | None \<Rightarrow>
          (let new = \<lparr>doc_id = next_rowid (map doc_id (documents db)), doc_repo_id = rid,
                       doc_path = p, doc_content = c, doc_content_hash = h\<rparr>
           in documents_ai (db\<lparr>documents := documents db @ [new]\<rparr>) new))"

text \<open>
  The store has no method that deletes a document; the operation is the statement
  \<open>DELETE FROM documents WHERE id = ?\<close>, which fires \<open>documents_ad\<close> for the deleted row.
\<close>

definition delete_document :: "database \<Rightarrow> int \<Rightarrow> database" where
  "delete_document db i =
     foldl documents_ad
       (db\<lparr>documents := filter (\<lambda>d. doc_id d \<noteq> i) (documents db)\<rparr>)
       (filter (\<lambda>d. doc_id d = i) (documents db))"

definition rebuild_fts_index :: "database \<Rightarrow> int \<times> database" where
  "rebuild_fts_index db =
     (let selected = concat (map (\<lambda>d. map (\<lambda>r. (Some (repo_full_name r), doc_path d, doc_content d))
                                   (filter (\<lambda>r. doc_repo_id d = repo_id r) (repositories db)))
                         (documents db))
      in (py_len selected, db\<lparr>documents_fts := foldl fts_insert [] selected\<rparr>))"

text \<open>The index entries, and what the live documents should give as index entries.\<close>

definition index_entries :: "database \<Rightarrow> (pystr option \<times> pystr \<times> pystr) list" where
  "index_entries db =
     map (\<lambda>f. (fts_repo_full_name f, fts_path f, fts_content f)) (documents_fts db)"

definition live_documents :: "database \<Rightarrow> (pystr option \<times> pystr \<times> pystr) list" where
  "live_documents db =
     map (\<lambda>d. (map_option repo_full_name (find (\<lambda>r. repo_id r = doc_repo_id d) (repositories db)),
               doc_path d, doc_content d))
       (documents db)"

text \<open>
  Sequences of document operations. \<open>names_repository\<close>: an insertion names a repository
  of the store. \<open>in_sync\<close>: the index rows are, one for one and in the same order, the
  documents, with the row id equal to the document id and the full name of the
  document's repository.
\<close>

datatype document_op = AddDocument int pystr pystr pystr | DeleteDocument int

fun apply_op :: "database \<Rightarrow> document_op \<Rightarrow> database" where
  "apply_op db (AddDocument rid p c h) = add_document db rid p c h"
| "apply_op db (DeleteDocument i) = delete_document db i"

definition apply_ops :: "database \<Rightarrow> document_op list \<Rightarrow> database" where
  "apply_ops db ops = foldl apply_op db ops"

fun names_repository :: "database \<Rightarrow> document_op \<Rightarrow> bool" where
  "names_repository db (AddDocument rid p c h) = list_ex (\<lambda>r. repo_id r = rid) (repositories db)"
| "names_repository db (DeleteDocument i) = True"

definition in_sync :: "database \<Rightarrow> bool" where
  "in_sync db =
     (map (\<lambda>f. (fts_rowid f, fts_repo_full_name f, fts_path f, fts_content f)) (documents_fts db)
      = map (\<lambda>d. (doc_id d,
                   map_option repo_full_name
                     (find (\<lambda>r. repo_id r = doc_repo_id d) (repositories db)),
                   doc_path d, doc_content d))
          (documents db))"

subsection \<open>search\_documents\<close>

text \<open>
  The full-text engine is a parameter. For a query text it gives \<open>None\<close> when FTS5 rejects
  the text (the statement then raises), or else a function that tells for every index row
  whether it matches and, if so, its \<open>rank\<close>; \<open>fts_snippet\<close> is the \<open>snippet\<close> function.
\<close>

record fts5 =
  fts_match :: "pystr \<Rightarrow> (fts_row \<Rightarrow> rat option) option"
  fts_snippet :: "pystr \<Rightarrow> fts_row \<Rightarrow> pystr"

record search_filters =
  flt_min_stars :: "int pyval"
  flt_category :: "pystr pyval"
  flt_source :: "pystr pyval"

record search_row =
  s_full_name :: pystr
  s_stars :: "int option"
  s_category :: "pystr option"
  s_description :: "pystr option"
  s_source :: pystr
  s_quality_score :: "rat option"
  s_path :: pystr
  s_snippet :: pystr
  s_rank :: rat

text \<open>
  The conditions appended to the \<open>WHERE\<close> clause: one for each filter whose value is
  true in Python (a non-zero number, a non-empty string). A comparison with \<open>NULL\<close> is
  not true.
\<close>

definition filters_hold :: "search_filters option \<Rightarrow> repository \<Rightarrow> bool" where
  "filters_hold filters r =
     (case filters of
        None \<Rightarrow> True
      | Some f \<Rightarrow>
          (case flt_min_stars f of
             Val n \<Rightarrow> n = 0 \<or> (case repo_stars r of Some st \<Rightarrow> st \<ge> n | None \<Rightarrow> False)
           | _ \<Rightarrow> True)
        \<and> (case flt_category f of
             Val c \<Rightarrow> c = [] \<or> repo_category r = Some c
           | _ \<Rightarrow> True)
        \<and> (case flt_source f of
             Val src \<Rightarrow> src = [] \<or> repo_source r = src
           | _ \<Rightarrow> True))"

text \<open>
  The join: an index row that matches, every document with the same path, every
  repository with the same full name.
\<close>

definition matching_rows ::
    "fts5 \<Rightarrow> (fts_row \<Rightarrow> rat option) \<Rightarrow> database \<Rightarrow> pystr \<Rightarrow> search_filters option \<Rightarrow> search_row list" where
  "matching_rows engine rank_of db query filters =
     concat (map (\<lambda>f.
       case rank_of f of
         None \<Rightarrow> []
       | Some rk \<Rightarrow>
           concat (map (\<lambda>d.
             map (\<lambda>r. \<lparr>s_full_name = repo_full_name r, s_stars = repo_stars r,
                        s_category = repo_category r, s_description = repo_description r,
                        s_source = repo_source r, s_quality_score = repo_quality_score r,
                        s_path = fts_path f, s_snippet = fts_snippet engine query f,
                        s_rank = rk\<rparr>)
               (filter (\<lambda>r. fts_repo_full_name f = Some (repo_full_name r) \<and> filters_hold filters r)
                  (repositories db)))
             (filter (\<lambda>d. fts_path f = doc_path d) (documents db))))
       (documents_fts db))"

text \<open>
  \<open>ORDER BY rank, r.quality_score DESC, r.stars DESC\<close>. SQLite puts \<open>NULL\<close> below every
  value, so last in a descending order. \<open>order_before a b\<close>: row \<open>a\<close> may stand before
  row \<open>b\<close>. The order of rows that agree on all three keys is not specified; the model
  sorts by insertion.
\<close>

fun null_less :: "'a::linorder option \<Rightarrow> 'a option \<Rightarrow> bool" where
  "null_less None (Some y) = True"
| "null_less (Some x) (Some y) = (x < y)"
| "null_less x None = False"

definition order_before :: "search_row \<Rightarrow> search_row \<Rightarrow> bool" where
  "order_before a b =
     (s_rank a < s_rank b
      \<or> (s_rank a = s_rank b
         \<and> (null_less (s_quality_score b) (s_quality_score a)
            \<or> (s_quality_score a = s_quality_score b
               \<and> (null_less (s_stars b) (s_stars a) \<or> s_stars a = s_stars b)))))"

fun insert_row :: "search_row \<Rightarrow> search_row list \<Rightarrow> search_row list" where
  "insert_row x [] = [x]"
| "insert_row x (y # ys) = (if order_before x y then x # y # ys else y # insert_row x ys)"

definition order_by :: "search_row list \<Rightarrow> search_row list" where
  "order_by rows = foldr insert_row rows []"

definition search_documents ::
    "fts5 \<Rightarrow> database \<Rightarrow> pystr \<Rightarrow> search_filters option \<Rightarrow> db_error + search_row list" where
  "search_documents engine db query filters =
     (case fts_match engine query of
        None \<Rightarrow> Inl OperationalError
      | Some rank_of \<Rightarrow> Inr (take 50 (order_by (matching_rows engine rank_of db query filters))))"

section \<open>search\_analytics.py\<close>

text \<open>
  The value of a Python float is a rational. The arithmetic of \<open>log_search\<close> is
  parametrised by the rounding \<open>fl\<close> applied to the exact result of each operation:
  \<open>binary64\<close> for Python's floats (IEEE 754 double precision, round to nearest, ties to
  even), the identity for exact arithmetic.
\<close>

definition round_half_even :: "rat \<Rightarrow> int" where
  "round_half_even x =
     (let f = floor x
      in if x - rat_of_int f < 1/2 then f
         else if x - rat_of_int f > 1/2 then f + 1
         else if even f then f else f + 1)"

definition pow2 :: "int \<Rightarrow> rat" where
  "pow2 e = (if 0 \<le> e then 2 ^ nat e else 1 / 2 ^ nat (- e))"

text \<open>\<open>ilog2 n\<close> is the largest \<open>e\<close> with \<open>2^e \<le> n\<close>, for \<open>n \<ge> 1\<close>.\<close>

function ilog2 :: "int \<Rightarrow> int" where
  "ilog2 n = (if n < 2 then 0 else 1 + ilog2 (n div 2))"
  by pat_completeness auto
termination
  by (relation "measure nat") auto

declare ilog2.simps [simp del]

text \<open>
  The exponent of a positive rational, the largest \<open>e\<close> with \<open>2^e \<le> x\<close>: that of
  \<open>floor x\<close> from 1 on, and below 1 the negated least \<open>c\<close> with \<open>1/x \<le> 2^c\<close>.
\<close>

definition floor_log2 :: "rat \<Rightarrow> int" where
  "floor_log2 x = (if 1 \<le> x then ilog2 (floor x) else - (ilog2 (ceiling (1 / x) - 1) + 1))"

text \<open>
  The double nearest to \<open>x\<close>: 53 significant bits, the spacing never below \<open>2^-1074\<close>.
  Overflow to infinity (from \<open>2^1024\<close> on) is not modelled.
\<close>

definition binary64 :: "rat \<Rightarrow> rat" where
  "binary64 x =
     (if x = 0 then 0
      else let ulp = pow2 (max (floor_log2 \<bar>x\<bar> - 52) (- 1074))
           in sgn x * rat_of_int (round_half_even (\<bar>x\<bar> / ulp)) * ulp)"

record search_query =
  q_query :: pystr
  q_results_count :: int
  q_clicked_results :: "pystr list"
  q_search_time :: rat

record popular_search =
  p_query :: pystr
  p_search_count :: int
  p_avg_results_count :: rat
  p_avg_search_time :: rat

record analytics =
  search_queries :: "search_query list"
  popular_searches :: "popular_search list"

definition empty_analytics :: analytics where
  "empty_analytics = \<lparr>search_queries = [], popular_searches = []\<rparr>"

text \<open>
  \<open>log_search\<close>, on the tables \<open>search_queries\<close> and \<open>popular_searches\<close>. The category and
  missing-documentation tables, which it also updates, do not bear on these two and are
  left out. \<open>clicked_results or []\<close> is the list that is passed.
\<close>

definition log_search ::
    "(rat \<Rightarrow> rat) \<Rightarrow> analytics \<Rightarrow> pystr \<Rightarrow> int \<Rightarrow> rat \<Rightarrow> pystr list \<Rightarrow> analytics" where
  "log_search fl a query results_count search_time clicked_results =
     (let a1 = a\<lparr>search_queries := search_queries a
                  @ [\<lparr>q_query = query, q_results_count = results_count,
                       q_clicked_results = clicked_results, q_search_time = search_time\<rparr>]\<rparr>
      in case find (\<lambda>p. p_query p = query) (popular_searches a1) of
           Some row \<Rightarrow>
             (let count = p_search_count row;
                  avg_results = p_avg_results_count row;
                  avg_time = p_avg_search_time row;
                  new_count = count + 1;
                  new_avg_results =
                    fl (fl (fl (avg_results * rat_of_int count) + rat_of_int results_count)
                        / rat_of_int new_count);
                  new_avg_time =
                    fl (fl (fl (avg_time * rat_of_int count) + search_time)
                        / rat_of_int new_count)
              in a1\<lparr>popular_searches :=
                      map (\<lambda>p. if p_query p = query
                                then p\<lparr>p_search_count := new_count,
                                       p_avg_results_count := new_avg_results,
                                       p_avg_search_time := new_avg_time\<rparr>
                                else p)
                        (popular_searches a1)\<rparr>)
         | None \<Rightarrow>
             a1\<lparr>popular_searches := popular_searches a1
                  @ [\<lparr>p_query = query, p_search_count = 1,
                       p_avg_results_count = rat_of_int results_count,
                       p_avg_search_time = search_time\<rparr>]\<rparr>)"

text \<open>A sequence of calls: each is \<open>(query, results_count, search_time)\<close>, with no clicks.\<close>

definition log_searches :: "(rat \<Rightarrow> rat) \<Rightarrow> analytics \<Rightarrow> (pystr \<times> int \<times> rat) list \<Rightarrow> analytics" where
  "log_searches fl a calls =
     foldl (\<lambda>a (query, results_count, search_time). log_search fl a query results_count search_time [])
       a calls"

text \<open>
  The averages by replay, as the specification states them: over the entries of the log
  with exactly that query text, the sum of the values divided by their number (the sum
  of the times taken from left to right).
\<close>

definition replayed_avg_results_count :: "(rat \<Rightarrow> rat) \<Rightarrow> search_query list \<Rightarrow> pystr \<Rightarrow> rat" where
  "replayed_avg_results_count fl entries_log query =
     (let entries = filter (\<lambda>e. q_query e = query) entries_log
      in fl (rat_of_int (sum_list (map q_results_count entries)) / rat_of_int (py_len entries)))"

definition replayed_avg_search_time :: "(rat \<Rightarrow> rat) \<Rightarrow> search_query list \<Rightarrow> pystr \<Rightarrow> rat" where
  "replayed_avg_search_time fl entries_log query =
     (let entries = filter (\<lambda>e. q_query e = query) entries_log
      in fl (foldl (\<lambda>s e. fl (s + q_search_time e)) 0 entries / rat_of_int (py_len entries)))"

text \<open>
  The aggregate of a query agrees with the log, in exact arithmetic: there is no row when
  the log has no entry for the query, and otherwise the row holds the number of entries
  and the two replayed averages.
\<close>

definition aggregate_matches :: "analytics \<Rightarrow> pystr \<Rightarrow> bool" where
  "aggregate_matches a query =
     (let entries = filter (\<lambda>e. q_query e = query) (search_queries a)
      in case find (\<lambda>p. p_query p = query) (popular_searches a) of
           None \<Rightarrow> entries = []
         | Some row \<Rightarrow>
             entries \<noteq> []
           \<and> p_search_count row = py_len entries
           \<and> p_avg_results_count row
               = replayed_avg_results_count (\<lambda>x. x) (search_queries a) query
           \<and> p_avg_search_time row
               = replayed_avg_search_time (\<lambda>x. x) (search_queries a) query)"

subsection \<open>Eight searches for one query\<close>

definition eight_searches :: "(pystr \<times> int \<times> rat) list" where
  "eight_searches =
     map (\<lambda>n. (u ''docker'', n, 0)) [0, 4, 5, 5, 5, 5, 5, 0]"

definition docker_entry :: "int \<Rightarrow> search_query" where
  "docker_entry v = \<lparr>q_query = u ''docker'', q_results_count = v, q_clicked_results = [],
     q_search_time = 0\<rparr>"

subsection \<open>Two updates of one repository\<close>

definition first_update :: repo_dict where
  "first_update =
     \<lparr>in_owner = Val (u ''octo''), in_name = Val (u ''docs''), in_full_name = Val (u ''octo/docs''),
      in_stars = Val 10, in_language = Val (u ''Python''), in_category = Val (u ''Web''),
      in_description = Val (u ''First''), in_source = Val (u ''curated''),
      in_quality_score = Absent, in_quality_grade = Absent, in_quality_metrics = Absent,
      in_priority = Absent, in_doc_paths = Val [u ''README.md''], in_topics = Absent\<rparr>"

definition second_update :: repo_dict where
  "second_update =
     \<lparr>in_owner = Val (u ''octo''), in_name = Val (u ''docs''), in_full_name = Val (u ''octo/docs''),
      in_stars = Val 20, in_language = PyNone, in_category = PyNone,
      in_description = Val (u ''Second''), in_source = Val (u ''discovered''),
      in_quality_score = Val 0.8, in_quality_grade = Val (u ''A-''), in_quality_metrics = Absent,
      in_priority = Val (u ''high''), in_doc_paths = Absent, in_topics = Val [u ''docs'']\<rparr>"

definition after_first :: repository where
  "after_first =
     \<lparr>repo_id = 1, repo_owner = u ''octo'', repo_name = u ''docs'', repo_full_name = u ''octo/docs'',
      repo_stars = Some 10, repo_language = Some (u ''Python''), repo_category = Some (u ''Web''),
      repo_description = Some (u ''First''), repo_source = u ''curated'',
      repo_quality_score = Some 0.5, repo_quality_grade = Some (u ''C''),
      repo_quality_metrics = Some [], repo_priority = Some (u ''medium''),
      repo_doc_paths = Some [u ''README.md''], repo_topics = Some []\<rparr>"

definition after_second :: repository where
  "after_second =
     \<lparr>repo_id = 1, repo_owner = u ''octo'', repo_name = u ''docs'', repo_full_name = u ''octo/docs'',
      repo_stars = Some 20, repo_language = None, repo_category = Some (u ''Web''),
      repo_description = Some (u ''Second''), repo_source = u ''curated'',
      repo_quality_score = Some 0.8, repo_quality_grade = Some (u ''A-''),
      repo_quality_metrics = Some [], repo_priority = Some (u ''high''),
      repo_doc_paths = Some [], repo_topics = Some [u ''docs'']\<rparr>"

subsection \<open>A store with three documents, and a stand-in for the engine\<close>

text \<open>
  The stand-in rejects the empty query, matches the rows whose content contains the
  query, and ranks every match alike.
\<close>

definition example_engine :: fts5 where
  "example_engine =
     \<lparr>fts_match = (\<lambda>q. if q = [] then None
                       else Some (\<lambda>f. if str_in q (fts_content f) then Some (- 1) else None)),
      fts_snippet = (\<lambda>q f. fts_content f)\<rparr>"

definition example_database :: database where
  "example_database =
     \<lparr>repositories =
       [\<lparr>repo_id = 1, repo_owner = u ''a'', repo_name = u ''x'', repo_full_name = u ''a/x'',
        repo_stars = Some 10, repo_language = None, repo_category = None, repo_description = None,
        repo_source = u ''curated'', repo_quality_score = Some 0.6, repo_quality_grade = Some (u ''C''),
        repo_quality_metrics = Some [], repo_priority = Some (u ''medium''), repo_doc_paths = Some [],
        repo_topics = Some []\<rparr>,
        \<lparr>repo_id = 2, repo_owner = u ''b'', repo_name = u ''y'', repo_full_name = u ''b/y'',
        repo_stars = Some 5, repo_language = None, repo_category = None, repo_description = None,
        repo_source = u ''curated'', repo_quality_score = Some 0.9, repo_quality_grade = Some (u ''C''),
        repo_quality_metrics = Some [], repo_priority = Some (u ''medium''), repo_doc_paths = Some [],
        repo_topics = Some []\<rparr>,
        \<lparr>repo_id = 3, repo_owner = u ''c'', repo_name = u ''z'', repo_full_name = u ''c/z'',
        repo_stars = Some 50, repo_language = None, repo_category = None, repo_description = None,
        repo_source = u ''curated'', repo_quality_score = Some 0.9, repo_quality_grade = Some (u ''C''),
        repo_quality_metrics = Some [], repo_priority = Some (u ''medium''), repo_doc_paths = Some [],
        repo_topics = Some []\<rparr>],
      documents =
       [\<lparr>doc_id = 1, doc_repo_id = 1, doc_path = u ''x.md'', doc_content = u ''run docker'',
        doc_content_hash = u ''h''\<rparr>,
        \<lparr>doc_id = 2, doc_repo_id = 2, doc_path = u ''y.md'', doc_content = u ''run docker'',
        doc_content_hash = u ''h''\<rparr>,
        \<lparr>doc_id = 3, doc_repo_id = 3, doc_path = u ''z.md'', doc_content = u ''run docker'',
        doc_content_hash = u ''h''\<rparr>],
      documents_fts =
       [\<lparr>fts_rowid = 1, fts_repo_full_name = Some (u ''a/x''), fts_path = u ''x.md'',
        fts_content = u ''run docker''\<rparr>,
        \<lparr>fts_rowid = 2, fts_repo_full_name = Some (u ''b/y''), fts_path = u ''y.md'',
        fts_content = u ''run docker''\<rparr>,
        \<lparr>fts_rowid = 3, fts_repo_full_name = Some (u ''c/z''), fts_path = u ''z.md'',
        fts_content = u ''run docker''\<rparr>]\<rparr>"

section \<open>Properties of the response limiter\<close>

subsection \<open>Sizes\<close>

lemma utf8_size_append: "utf8_size (xs @ ys) = utf8_size xs + utf8_size ys"
  by (simp add: utf8_size_def)

lemma utf8_size_Cons: "utf8_size (c # cs) = utf8_len c + utf8_size cs"
  by (simp add: utf8_size_def)

lemma utf8_size_Nil: "utf8_size [] = 0"
  by (simp add: utf8_size_def)

lemma utf8_size_replicate: "utf8_size (replicate n c) = int n * utf8_len c"
  by (induction n) (simp_all add: utf8_size_def algebra_simps)

text \<open>
  C2. The claim: the payload of every formatting operation has at most
  \<open>MAX_RESPONSE_SIZE\<close> bytes. \<open>format_list_response\<close> caps the number of items at 50 and
  the description at 60 characters, but checks no size: for a single item whose name has
  600000 characters the payload (title, two newlines, the bullet and the name) is larger
  than \<open>MAX_RESPONSE_SIZE\<close>.
\<close>

theorem format_list_response_exceeds:
  "MAX_RESPONSE_SIZE <
     utf8_size (format_list_response
       [item_long_name] (u ''Repositories''))"
  by (simp add: format_list_response_def item_line_def item_long_name_def slice_to_def py_len_def get_or_def
      truthy_int_def truthy_str_def utf8_size_append utf8_size_Cons utf8_size_Nil
      utf8_size_replicate utf8_len_def MAX_RESPONSE_SIZE_def u_def)

subsection \<open>Omission markers\<close>

lemma docs_loop_shape:
  "\<exists>k\<le>length docs. docs_loop n i tot docs =
      concat (map doc_section (take k docs))
      @ (if drop k docs \<noteq> [] then [omitted_marker (n - i - int k)] else [])"
proof (induction docs arbitrary: i tot)
  case Nil
  then show ?case by simp
next
  case (Cons doc rest)
  let ?sz = "py_len (join [10] (doc_section doc))"
  show ?case
  proof (cases "rat_of_int (tot + ?sz) > rat_of_int MAX_RESPONSE_SIZE * 0.9")
    case True
    then have "docs_loop n i tot (doc # rest) =
        concat (map doc_section (take 0 (doc # rest)))
        @ (if drop 0 (doc # rest) \<noteq> [] then [omitted_marker (n - i - int 0)] else [])"
      by (simp add: Let_def)
    then show ?thesis by blast
  next
    case False
    from Cons.IH [of "i + 1" "tot + ?sz"] obtain k where
      k: "k \<le> length rest"
         "docs_loop n (i + 1) (tot + ?sz) rest =
            concat (map doc_section (take k rest))
            @ (if drop k rest \<noteq> [] then [omitted_marker (n - (i + 1) - int k)] else [])"
      by blast
    have "docs_loop n i tot (doc # rest) =
        concat (map doc_section (take (Suc k) (doc # rest)))
        @ (if drop (Suc k) (doc # rest) \<noteq> [] then [omitted_marker (n - i - int (Suc k))] else [])"
      using False k(2) by (simp add: Let_def algebra_simps)
    moreover have "Suc k \<le> length (doc # rest)" using k(1) by simp
    ultimately show ?thesis by blast
  qed
qed

text \<open>
  C8 (as amended). Whenever the accumulation of \<open>format_docs_response\<close> stops early, it
  appends an explicit marker whose count is the number of documents not included, which
  is not zero: the payload is the header, the sections of the first \<open>k\<close> documents and,
  exactly when documents remain, the marker with the number of the remaining documents.
\<close>

theorem format_docs_response_marker:
  assumes "docs \<noteq> []"
  shows "\<exists>k\<le>length docs.
           format_docs_response docs repository_name =
             join [10] (docs_header repository_name
               # concat (map doc_section (take k docs))
               @ (if drop k docs \<noteq> [] then [omitted_marker (py_len (drop k docs))] else []))"
proof -
  from docs_loop_shape [of docs "py_len docs" 0 "py_len (docs_header repository_name)"]
  obtain k where k: "k \<le> length docs"
    "docs_loop (py_len docs) 0 (py_len (docs_header repository_name)) docs =
       concat (map doc_section (take k docs))
       @ (if drop k docs \<noteq> [] then [omitted_marker (py_len docs - 0 - int k)] else [])"
    by blast
  have "py_len docs - 0 - int k = py_len (drop k docs)"
    using k(1) by (simp add: py_len_def)
  with k(2) have "format_docs_response docs repository_name =
             join [10] (docs_header repository_name
               # concat (map doc_section (take k docs))
               @ (if drop k docs \<noteq> [] then [omitted_marker (py_len (drop k docs))] else []))"
    using assms by (simp only: format_docs_response_def if_False)
  with k(1) show ?thesis by blast
qed


lemma section_size_small: "py_len (join [10] (doc_section doc_small)) = 120"
  by (simp add: doc_section_def doc_small_def py_len_def get_or_def limit_document_content_def
      truncate_text_def MAX_CONTENT_PREVIEW_def u_def)

lemma section_size_long: "500000 \<le> py_len (join [10] (doc_section doc_long_path))"
  by (simp add: doc_section_def doc_long_path_def py_len_def get_or_def limit_document_content_def
      truncate_text_def MAX_CONTENT_PREVIEW_def u_def)

lemma docs_loop_small_long:
  "docs_loop 2 0 (py_len (docs_header (u ''a/b''))) [doc_small, doc_long_path]
     = doc_section doc_small @ [omitted_marker 1]"
proof -
  have h: "py_len (docs_header (u ''a/b'')) = 24"
    by (simp add: docs_header_def py_len_def u_def)
  show ?thesis
    using section_size_long
    by (simp add: Let_def section_size_small MAX_RESPONSE_SIZE_def h)
qed

theorem format_docs_response_marker_witness:
  "[doc_small, doc_long_path] \<noteq> []
   \<and> format_docs_response [doc_small, doc_long_path] (u ''a/b'') =
       join [10] (docs_header (u ''a/b'') # doc_section doc_small @ [omitted_marker 1])"
  using format_docs_response_marker [of "[doc_small, doc_long_path]" "u ''a/b''"]
    docs_loop_small_long
  by (simp add: format_docs_response_def py_len_def)

lemma if_not_Nil: "x \<noteq> [] \<Longrightarrow> y \<noteq> [] \<Longrightarrow> (if b then x else y) \<noteq> []"
  by simp

lemma json_escape_not_Nil: "json_escape c \<noteq> []"
  unfolding json_escape_def by (intro if_not_Nil) simp_all

lemma length_concat_json_escape: "length s \<le> length (concat (map json_escape s))"
proof (induction s)
  case Nil
  then show ?case by simp
next
  case (Cons c s)
  have "1 \<le> length (json_escape c)"
    using json_escape_not_Nil [of c] by (cases "json_escape c") simp_all
  with Cons show ?case by simp
qed

lemma length_json_str: "length s \<le> length (json_str s)"
  using length_concat_json_escape [of s] by (simp add: json_str_def)

lemma length_join_mem: "x \<in> set xs \<Longrightarrow> length x \<le> length (join sep xs)"
  by (induction sep xs rule: join.induct) auto

lemma estimate_size_path:
  assumes "r_path r = Some p"
  shows "py_len p \<le> estimate_size r"
proof -
  let ?item = "json_str (u ''path'') @ u '': '' @ json_str p"
  let ?items = "json_item ''full_name'' (map_option json_str (r_full_name r))
      @ json_item ''stars'' (map_option str_int (r_stars r))
      @ json_item ''language'' (map_option json_str (r_language r))
      @ json_item ''description'' (map_option json_str (r_description r))
      @ json_item ''path'' (map_option json_str (r_path r))
      @ json_item ''snippet'' (map_option json_str (r_snippet r))"
  have "?item \<in> set ?items"
    using assms by (simp add: json_item_def)
  then have "length ?item \<le> length (join (u '', '') ?items)"
    by (rule length_join_mem)
  moreover have "length p \<le> length ?item"
    using length_json_str [of p] by simp
  ultimately show ?thesis
    by (simp add: estimate_size_def json_dumps_def py_len_def)
qed


lemma estimate_size_small: "estimate_size result_small = 72"
  unfolding result_small_def by code_simp

lemma truncate_fields_small: "truncate_fields result_small = result_small"
  by (simp add: result_small_def truncate_fields_def truncate_text_def py_len_def u_def)

lemma truncate_fields_long: "truncate_fields result_long_path = result_long_path"
  by (simp add: result_long_path_def truncate_fields_def truncate_text_def py_len_def u_def)

lemma estimate_size_long: "500000 \<le> estimate_size result_long_path"
  using estimate_size_path [of result_long_path "replicate 500000 97"] by (simp add: result_long_path_def py_len_def)

lemma limit_small_long: "limit_search_results [result_small, result_long_path] = [result_small]"
  using estimate_size_long
  by (simp add: limit_search_results_def slice_to_def MAX_SEARCH_RESULTS_def Let_def
      truncate_fields_small truncate_fields_long estimate_size_small MAX_RESPONSE_SIZE_def)

text \<open>
  C8 as stated fails for the search path: \<open>limit_search_results\<close> leaves its loop without
  a marker. Of two results, the second with a path of 500000 characters, only the first
  is kept, and the payload of \<open>format_search_response\<close> ends with the lines of that
  result; the omission shows only in the line "Showing 1 of 2 results".
\<close>

theorem search_stops_without_marker:
  "limit_search_results [result_small, result_long_path] = [result_small]
   \<and> format_search_response [result_small, result_long_path] (u ''q'') =
       [128269] @ u '' Search Results for '' @ [39] @ u ''q'' @ [39, 10]
       @ u ''Showing 1 of 2 results'' @ [10, 10]
       @ [128230] @ u '' a/b '' @ [11088] @ u '' 5'' @ [10]
       @ u ''   File: README.md'' @ [10]
       @ u ''   Preview: text'' @ [10]"
proof -
  have s1: "str_int 1 = u ''1''" by code_simp
  have s2: "str_int 2 = u ''2''" by code_simp
  have f5: "fmt_comma 5 = u ''5''" by code_simp
  have "result_lines result_small = [[128230] @ u '' a/b '' @ [11088] @ u '' 5'', u ''   File: README.md'', u ''   Preview: text'', []]"
    by (simp add: result_lines_def result_small_def get_or_def truthy_str_def f5 u_def)
  then show ?thesis
    by (simp add: format_search_response_def limit_small_long Let_def py_len_def s1 s2
      MAX_RESPONSE_SIZE_def u_def)
qed

subsection \<open>Truncation of a text\<close>

text \<open>
  C10. For every string \<open>text\<close> and every \<open>max_length \<ge> 4\<close>, \<open>truncate_text\<close> returns
  \<open>text\<close> unchanged when \<open>len(text) \<le> max_length\<close>, and otherwise a string of exactly
  \<open>max_length\<close> characters that ends in \<open>" ..."\<close>; so the result is never longer than
  \<open>max_length\<close>.
\<close>

theorem truncate_text_spec:
  assumes "4 \<le> max_length"
  shows "(py_len text \<le> max_length \<longrightarrow> truncate_text text max_length = text)
       \<and> (max_length < py_len text \<longrightarrow>
            py_len (truncate_text text max_length) = max_length
          \<and> suffix (u '' ...'') (truncate_text text max_length))
       \<and> py_len (truncate_text text max_length) \<le> max_length"
  using assms
  by (auto simp: truncate_text_def slice_to_def py_len_def u_def suffix_def)

theorem truncate_text_spec_witness:
  "(4::int) \<le> 8
   \<and> truncate_text (u ''short'') 8 = u ''short''
   \<and> truncate_text (u ''a longer text'') 8 = u ''a lo ...''
   \<and> py_len (truncate_text (u ''a longer text'') 8) = 8"
  using truncate_text_spec [of 8 "u ''short''"] truncate_text_spec [of 8 "u ''a longer text''"]
  by (simp add: truncate_text_def slice_to_def py_len_def u_def)

section \<open>Properties of the quality scorer\<close>

subsection \<open>Bounds of the metrics\<close>

lemma credit_bounds: "0 \<le> x \<Longrightarrow> 0 \<le> credit b x \<and> credit b x \<le> x"
  by (simp add: credit_def)

lemma credit_nonneg: "0 \<le> x \<Longrightarrow> 0 \<le> credit b x"
  by (simp add: credit_def)

lemma str_count_nonneg: "0 \<le> str_count s sub"
proof (induction s sub rule: str_count.induct)
  case (1 s sub)
  then show ?case
    by (subst str_count.simps) (simp add: py_len_def)
qed

lemma findall_count_nonneg: "0 \<le> findall_count m s"
proof (induction m s rule: findall_count.induct)
  case (1 m s)
  then show ?case
    by (subst findall_count.simps) (simp split: option.splits)
qed

lemma score_completeness_bounds:
  "0 \<le> score_completeness rd docs \<and> score_completeness rd docs \<le> 1"
  by (simp add: score_completeness_def Let_def credit_nonneg)

lemma score_freshness_bounds:
  "0 \<le> score_freshness days_since rd docs \<and> score_freshness days_since rd docs \<le> 1"
  by (simp add: score_freshness_def Let_def split: option.splits)

lemma depth_scores_nonneg:
  "0 \<le> sum_list (map (\<lambda>depth. min (rat_of_int depth * 0.1) 0.3) (filter (\<lambda>depth. depth > 0) ds))"
  by (rule sum_list_nonneg) auto

lemma score_structure_bounds:
  "0 \<le> score_structure docs \<and> score_structure docs \<le> 1"
proof -
  let ?ds = "map (\<lambda>depth. min (rat_of_int depth * 0.1) 0.3)
               (filter (\<lambda>depth. depth > 0) (map (\<lambda>doc. str_count (path doc) (u ''/'')) docs))"
  have "0 \<le> sum_list ?ds / rat_of_int (py_len ?ds)"
    using depth_scores_nonneg by (simp add: py_len_def)
  then show ?thesis
    by (simp add: score_structure_def Let_def credit_nonneg)
qed

lemma keyword_count_nonneg: "0 \<le> sum_list (map (\<lambda>keyword. str_count s keyword) ks)"
  by (rule sum_list_nonneg) (auto simp: str_count_nonneg)

lemma min_nonneg: "0 \<le> x \<Longrightarrow> 0 \<le> y \<Longrightarrow> 0 \<le> min x (y::rat)"
  by simp

lemma of_int_times_nonneg: "0 \<le> n \<Longrightarrow> 0 \<le> x \<Longrightarrow> 0 \<le> rat_of_int n * x"
  by simp

lemma score_examples_bounds:
  "0 \<le> score_examples docs \<and> score_examples docs \<le> 1"
proof
  show "0 \<le> score_examples docs"
    unfolding score_examples_def Let_def
    by (intro min_nonneg add_nonneg_nonneg credit_nonneg of_int_times_nonneg
        keyword_count_nonneg findall_count_nonneg) simp_all
  show "score_examples docs \<le> 1"
    by (simp add: score_examples_def Let_def)
qed

lemma score_community_bounds:
  "0 \<le> score_community rd \<and> score_community rd \<le> 1"
  by (simp add: score_community_def Let_def credit_nonneg)

lemma score_accessibility_bounds:
  "0 \<le> score_accessibility docs \<and> score_accessibility docs \<le> 1"
  by (simp add: score_accessibility_def Let_def credit_nonneg py_len_def)

lemma weights_sum:
  "m_completeness weights + m_freshness weights + m_structure weights + m_examples weights
     + m_community weights + m_accessibility weights = 1"
  by (simp add: weights_def)

lemma weighted_total_bounds:
  assumes "0 \<le> a \<and> a \<le> 1" "0 \<le> b \<and> b \<le> 1" "0 \<le> c \<and> c \<le> 1"
    "0 \<le> d \<and> d \<le> 1" "0 \<le> e \<and> e \<le> 1" "0 \<le> f \<and> f \<le> (1::rat)"
  shows "0 \<le> weighted_total \<lparr>m_completeness = a, m_freshness = b, m_structure = c,
            m_examples = d, m_community = e, m_accessibility = f\<rparr>
       \<and> weighted_total \<lparr>m_completeness = a, m_freshness = b, m_structure = c,
            m_examples = d, m_community = e, m_accessibility = f\<rparr> \<le> 1"
  using assms by (simp add: weighted_total_def weights_def)

lemma round2_bounds:
  assumes "0 \<le> x" "x \<le> 1"
  shows "0 \<le> round2 x \<and> round2 x \<le> 1"
proof -
  let ?y = "x * 100"
  let ?f = "floor ?y"
  have f0: "0 \<le> ?f" using assms(1) by simp
  have y100: "?y \<le> 100" using assms(2) by simp
  then have f100: "?f \<le> 100" by (simp add: floor_le_iff)
  have up: "?f + 1 \<le> 100" if "?y - rat_of_int ?f \<ge> 1/2"
  proof -
    have "rat_of_int ?f < ?y" using that by linarith
    then have "rat_of_int ?f < 100" using y100 by linarith
    then have "?f < 100" by linarith
    then show ?thesis by simp
  qed
  define k where "k = (if ?y - rat_of_int ?f < 1/2 then ?f
                     else if ?y - rat_of_int ?f > 1/2 then ?f + 1
                     else if even ?f then ?f else ?f + 1)"
  have "0 \<le> k \<and> k \<le> 100"
    unfolding k_def using f0 f100 up by auto
  moreover have "round2 x = rat_of_int k / 100"
    by (simp add: round2_def k_def Let_def)
  ultimately show ?thesis by simp
qed

text \<open>
  C7. For every repository and every document list, each of the six metric scores of
  \<open>score_repository\<close> lies in \<open>[0,1]\<close>, the six weights sum to exactly 1, and the weighted
  total, before and after rounding, lies in \<open>[0,1]\<close>.
\<close>

theorem score_repository_bounds:
  "(0 \<le> m_completeness (metrics (score_repository days_since rd docs))
      \<and> m_completeness (metrics (score_repository days_since rd docs)) \<le> 1)
 \<and> (0 \<le> m_freshness (metrics (score_repository days_since rd docs))
      \<and> m_freshness (metrics (score_repository days_since rd docs)) \<le> 1)
 \<and> (0 \<le> m_structure (metrics (score_repository days_since rd docs))
      \<and> m_structure (metrics (score_repository days_since rd docs)) \<le> 1)
 \<and> (0 \<le> m_examples (metrics (score_repository days_since rd docs))
      \<and> m_examples (metrics (score_repository days_since rd docs)) \<le> 1)
 \<and> (0 \<le> m_community (metrics (score_repository days_since rd docs))
      \<and> m_community (metrics (score_repository days_since rd docs)) \<le> 1)
 \<and> (0 \<le> m_accessibility (metrics (score_repository days_since rd docs))
      \<and> m_accessibility (metrics (score_repository days_since rd docs)) \<le> 1)
 \<and> m_completeness weights + m_freshness weights + m_structure weights + m_examples weights
      + m_community weights + m_accessibility weights = 1
 \<and> (0 \<le> weighted_total (metrics (score_repository days_since rd docs))
      \<and> weighted_total (metrics (score_repository days_since rd docs)) \<le> 1)
 \<and> (0 \<le> total_score (score_repository days_since rd docs)
      \<and> total_score (score_repository days_since rd docs) \<le> 1)"
proof -
  let ?m = "\<lparr>m_completeness = score_completeness rd docs,
             m_freshness = score_freshness days_since rd docs,
             m_structure = score_structure docs,
             m_examples = score_examples docs,
             m_community = score_community rd,
             m_accessibility = score_accessibility docs\<rparr>"
  have m: "metrics (score_repository days_since rd docs) = ?m"
    by (simp add: score_repository_def Let_def)
  have t: "total_score (score_repository days_since rd docs) = round2 (weighted_total ?m)"
    by (simp add: score_repository_def Let_def)
  have w: "0 \<le> weighted_total ?m \<and> weighted_total ?m \<le> 1"
    by (rule weighted_total_bounds)
       (rule score_completeness_bounds score_freshness_bounds score_structure_bounds
          score_examples_bounds score_community_bounds score_accessibility_bounds)+
  have r: "0 \<le> round2 (weighted_total ?m) \<and> round2 (weighted_total ?m) \<le> 1"
    using w by (simp add: round2_bounds)
  show ?thesis
    unfolding m t
    using w r weights_sum score_completeness_bounds [of rd docs]
      score_freshness_bounds [of days_since rd docs] score_structure_bounds [of docs]
      score_examples_bounds [of docs] score_community_bounds [of rd]
      score_accessibility_bounds [of docs]
    by simp
qed


subsection \<open>Grades\<close>

text \<open>
  C5 (as amended). The grade mapping is a fixed, ordered set of thresholds forming eleven
  bands, from F (score below 0.40) through D, C-, C, C+, B-, B, B+, A-, A up to A+ (score
  at least 0.90). Each band includes its lower edge, and the bands are contiguous and
  exhaustive: every score receives exactly one grade.
\<close>

theorem get_grade_bands:
  "(get_grade s = u ''F'') = (s < 0.40)
 \<and> (get_grade s = u ''D'') = (0.40 \<le> s \<and> s < 0.50)
 \<and> (get_grade s = u ''C-'') = (0.50 \<le> s \<and> s < 0.55)
 \<and> (get_grade s = u ''C'') = (0.55 \<le> s \<and> s < 0.60)
 \<and> (get_grade s = u ''C+'') = (0.60 \<le> s \<and> s < 0.65)
 \<and> (get_grade s = u ''B-'') = (0.65 \<le> s \<and> s < 0.70)
 \<and> (get_grade s = u ''B'') = (0.70 \<le> s \<and> s < 0.75)
 \<and> (get_grade s = u ''B+'') = (0.75 \<le> s \<and> s < 0.80)
 \<and> (get_grade s = u ''A-'') = (0.80 \<le> s \<and> s < 0.85)
 \<and> (get_grade s = u ''A'') = (0.85 \<le> s \<and> s < 0.90)
 \<and> (get_grade s = u ''A+'') = (0.90 \<le> s)"
  by (simp add: get_grade_def u_def)


text \<open>
  C5 as stated speaks of nine bands: eleven scores in \<open>[0,1]\<close> receive eleven grades that
  differ from one another.
\<close>

theorem get_grade_eleven_grades:
  "distinct (map get_grade [0.95, 0.87, 0.82, 0.77, 0.72, 0.67, 0.62, 0.57, 0.52, 0.45, 0.20])
   \<and> length (map get_grade [0.95, 0.87, 0.82, 0.77, 0.72, 0.67, 0.62, 0.57, 0.52, 0.45, 0.20]) = 11"
  by (simp add: get_grade_def u_def)


subsection \<open>The repository with three documents\<close>

lemma ex_completeness: "score_completeness example_repo example_documents = 7/10"
  by code_simp
lemma ex_structure: "score_structure example_documents = 3/10"
  by code_simp
lemma ex_examples: "score_examples example_documents = 13/100"
  by code_simp
lemma ex_community: "score_community example_repo = 1"
  by code_simp
lemma ex_accessibility: "score_accessibility example_documents = 9/10"
  by code_simp
lemma ex_freshness: "score_freshness days_since example_repo example_documents = 1/2"
  by (simp add: score_freshness_def example_repo_def get_or_def)
lemma ex_blocks: "findall_count match_code_block example_readme = 2"
  by code_simp
lemma ex_toc: "str_in (u ''## Table of Contents'') example_readme"
  by code_simp
lemma ex_grade: "get_grade (1089/2000) = u ''C-''"
  by (simp add: get_grade_def)
lemma ex_round: "round2 (1089/2000) = 27/50"
  by code_simp


text \<open>
  C9. There is a repository with exactly three documents, one of which contains
  "## Table of Contents" and two fenced code blocks, for which \<open>score_repository\<close> awards
  a non-zero completeness and a non-zero structure metric, and a total of at least 0.50,
  hence a grade no lower than C-.
\<close>

theorem score_repository_example:
  "length example_documents = 3
 \<and> content (hd example_documents) = Some example_readme
 \<and> str_in (u ''## Table of Contents'') example_readme
 \<and> findall_count match_code_block example_readme = 2
 \<and> 0 < m_completeness (metrics (score_repository days_since example_repo example_documents))
 \<and> 0 < m_structure (metrics (score_repository days_since example_repo example_documents))
 \<and> 0.50 \<le> weighted_total (metrics (score_repository days_since example_repo example_documents))
 \<and> grade (score_repository days_since example_repo example_documents) = u ''C-''"
proof -
  have docs: "length example_documents = 3 \<and> content (hd example_documents) = Some example_readme"
    by (simp add: example_documents_def)
  have total: "weighted_total \<lparr>m_completeness = 7/10, m_freshness = 1/2, m_structure = 3/10,
          m_examples = 13/100, m_community = 1, m_accessibility = 9/10\<rparr> = 1089/2000"
    by (simp add: weighted_total_def weights_def)
  have "score_repository days_since example_repo example_documents =
      \<lparr>total_score = 27/50,
       metrics = \<lparr>m_completeness = 7/10, m_freshness = 1/2, m_structure = 3/10,
          m_examples = 13/100, m_community = 1, m_accessibility = 9/10\<rparr>,
       grade = u ''C-''\<rparr>"
    by (simp only: score_repository_def Let_def ex_completeness ex_structure ex_examples
        ex_community ex_accessibility ex_freshness total ex_grade ex_round)
  then show ?thesis
    using docs ex_toc ex_blocks total by simp
qed

section \<open>Properties of the store\<close>

subsection \<open>Repositories\<close>

lemma filter_key_distinct:
  assumes "distinct (map f xs)"
  shows "filter (\<lambda>x. f x = k) xs = [] \<or> (\<exists>x. filter (\<lambda>x. f x = k) xs = [x])"
  using assms
proof (induction xs)
  case Nil
  then show ?case by simp
next
  case (Cons a xs)
  show ?case
  proof (cases "f a = k")
    case True
    have "f a \<notin> f ` set xs" using Cons.prems by simp
    then have "\<forall>x\<in>set xs. f x \<noteq> k" using True by blast
    then have "filter (\<lambda>x. f x = k) xs = []" by (simp add: filter_empty_conv)
    with True show ?thesis by simp
  next
    case False
    with Cons show ?thesis by simp
  qed
qed

lemma same_identity_key:
  "same_identity owner name = (\<lambda>r. (repo_owner r, repo_name r) = (owner, name))"
  by (auto simp: same_identity_def fun_eq_iff)

lemma same_identity_do_update [simp]:
  "same_identity owner name (do_update d r) = same_identity owner name r"
  by (simp add: same_identity_def do_update_def)

lemma filter_map_do_update:
  "filter (same_identity owner name)
     (map (\<lambda>r. if same_identity owner name r then do_update d r else r) rs)
   = map (do_update d) (filter (same_identity owner name) rs)"
  by (induction rs) simp_all

lemma upsert_update_path:
  assumes "in_owner d = Val owner" "in_name d = Val name"
    and "list_ex (same_identity owner name) (repositories db)"
    and "upsert_repository db d = Inr db'"
  shows "repositories db' =
           map (\<lambda>r. if same_identity owner name r then do_update d r else r) (repositories db)"
  using assms
  by (auto simp: upsert_repository_def split: if_splits option.splits pyval.splits prod.splits)

lemma upsert_insert_path:
  assumes "in_owner d = Val owner" "in_name d = Val name"
    and "\<not> list_ex (same_identity owner name) (repositories db)"
    and "upsert_repository db d = Inr db'"
  shows "\<exists>r. repositories db' = repositories db @ [r] \<and> same_identity owner name r"
  using assms
  by (auto simp: upsert_repository_def new_repository_def same_identity_def
      split: if_splits option.splits pyval.splits prod.splits)


lemma list_ex_map_do_update:
  "list_ex (same_identity owner name)
     (map (\<lambda>r. if same_identity owner name r then do_update d r else r) rs)
   = list_ex (same_identity owner name) rs"
  by (induction rs) simp_all

lemma identities_map_do_update:
  "map (\<lambda>r. (repo_owner r, repo_name r))
     (map (\<lambda>r. if same_identity owner name r then do_update d r else r) rs)
   = map (\<lambda>r. (repo_owner r, repo_name r)) rs"
  by (induction rs) (simp_all add: do_update_def)

lemma upsert_success:
  assumes "upsert_repository db d = Inr db'"
  shows "\<exists>owner name. in_owner d = Val owner \<and> in_name d = Val name"
  using assms
  by (cases "in_owner d"; cases "in_name d")
     (simp_all add: upsert_repository_def split: if_splits)

lemma upsert_keeps_identities_distinct:
  assumes uniq: "distinct (map (\<lambda>r. (repo_owner r, repo_name r)) (repositories db))"
    and u: "upsert_repository db d = Inr db'"
  shows "distinct (map (\<lambda>r. (repo_owner r, repo_name r)) (repositories db'))"
proof -
  from upsert_success [OF u] obtain owner name
    where d: "in_owner d = Val owner" "in_name d = Val name" by blast
  show ?thesis
  proof (cases "list_ex (same_identity owner name) (repositories db)")
    case True
    from upsert_update_path [OF d True u] uniq show ?thesis
      by (simp only: identities_map_do_update)
  next
    case False
    from upsert_insert_path [OF d False u] obtain r
      where r: "repositories db' = repositories db @ [r]" "same_identity owner name r"
      by blast
    have "(repo_owner r, repo_name r) \<notin> set (map (\<lambda>r. (repo_owner r, repo_name r)) (repositories db))"
      using False r(2) by (auto simp: list_ex_iff same_identity_def)
    with uniq r(1) show ?thesis by simp
  qed
qed

text \<open>
  C6. \<open>upsert_repository\<close> applied twice with the same \<open>(owner, name)\<close> yields exactly
  one row with that identity. On the conflict the stored category and description are
  kept unless the incoming dictionary supplies a value that is not \<open>None\<close>, while star
  count, language, quality score, grade and metrics, priority, the list of paths and the
  list of topics are overwritten by the incoming values (the defaults of \<open>get\<close> for absent
  keys). The table is assumed to satisfy its constraint \<open>UNIQUE(owner, name)\<close>, which
  \<open>upsert_repository\<close> preserves.
\<close>

theorem upsert_repository_twice:
  assumes uniq: "distinct (map (\<lambda>r. (repo_owner r, repo_name r)) (repositories db))"
    and d1: "in_owner d1 = Val owner" "in_name d1 = Val name"
    and d2: "in_owner d2 = Val owner" "in_name d2 = Val name"
    and u1: "upsert_repository db d1 = Inr db1"
    and u2: "upsert_repository db1 d2 = Inr db2"
  shows "\<exists>r1 r2.
           filter (same_identity owner name) (repositories db1) = [r1]
         \<and> filter (same_identity owner name) (repositories db2) = [r2]
         \<and> repo_category r2 =
             (case dict_get (in_category d2) of Some c \<Rightarrow> Some c | None \<Rightarrow> repo_category r1)
         \<and> repo_description r2 =
             (case dict_get (in_description d2) of Some c \<Rightarrow> Some c | None \<Rightarrow> repo_description r1)
         \<and> repo_stars r2 = dict_get_default (in_stars d2) 0
         \<and> repo_language r2 = dict_get (in_language d2)
         \<and> repo_quality_score r2 = dict_get_default (in_quality_score d2) 0.5
         \<and> repo_quality_grade r2 = dict_get_default (in_quality_grade d2) (u ''C'')
         \<and> repo_quality_metrics r2 = dict_get_default (in_quality_metrics d2) []
         \<and> repo_priority r2 = dict_get_default (in_priority d2) (u ''medium'')
         \<and> repo_doc_paths r2 = dict_get_default (in_doc_paths d2) []
         \<and> repo_topics r2 = dict_get_default (in_topics d2) []
         \<and> repo_id r2 = repo_id r1 \<and> repo_full_name r2 = repo_full_name r1
         \<and> repo_source r2 = repo_source r1"
proof -
  have uniq1: "distinct (map (\<lambda>r. (repo_owner r, repo_name r)) (repositories db1))"
    using uniq u1 by (rule upsert_keeps_identities_distinct)
  have ex1: "list_ex (same_identity owner name) (repositories db1)"
  proof (cases "list_ex (same_identity owner name) (repositories db)")
    case True
    from upsert_update_path [OF d1 True u1] True show ?thesis
      by (simp only: list_ex_map_do_update)
  next
    case False
    from upsert_insert_path [OF d1 False u1] show ?thesis
      by (auto simp: list_ex_iff)
  qed
  from filter_key_distinct [OF uniq1, of "(owner, name)"] ex1
  obtain r1 where r1: "filter (same_identity owner name) (repositories db1) = [r1]"
    by (auto simp: same_identity_key list_ex_iff filter_empty_conv)
  from upsert_update_path [OF d2 ex1 u2]
  have "filter (same_identity owner name) (repositories db2)
          = map (do_update d2) (filter (same_identity owner name) (repositories db1))"
    by (simp add: filter_map_do_update)
  with r1 have r2: "filter (same_identity owner name) (repositories db2) = [do_update d2 r1]"
    by simp
  show ?thesis
    by (rule exI [of _ r1], rule exI [of _ "do_update d2 r1"])
       (simp add: r1 r2 do_update_def coalesce_def)
qed

lemma first_upsert:
  "upsert_repository empty_database first_update = Inr (empty_database\<lparr>repositories := [after_first]\<rparr>)"
  by (simp add: upsert_repository_def first_update_def empty_database_def after_first_def
      new_repository_def next_rowid_def u_def)

lemma second_upsert:
  "upsert_repository (empty_database\<lparr>repositories := [after_first]\<rparr>) second_update
     = Inr (empty_database\<lparr>repositories := [after_second]\<rparr>)"
  by (simp add: upsert_repository_def second_update_def empty_database_def after_first_def
      after_second_def do_update_def same_identity_def coalesce_def u_def)

theorem upsert_repository_twice_witness:
  "distinct (map (\<lambda>r. (repo_owner r, repo_name r)) (repositories empty_database))
   \<and> upsert_repository empty_database first_update
        = Inr (empty_database\<lparr>repositories := [after_first]\<rparr>)
   \<and> upsert_repository (empty_database\<lparr>repositories := [after_first]\<rparr>) second_update
        = Inr (empty_database\<lparr>repositories := [after_second]\<rparr>)
   \<and> filter (same_identity (u ''octo'') (u ''docs''))
         (repositories (empty_database\<lparr>repositories := [after_second]\<rparr>)) = [after_second]
   \<and> repo_category after_second = repo_category after_first
   \<and> repo_description after_second = Some (u ''Second'')
   \<and> repo_stars after_second = Some 20"
  using upsert_repository_twice [of empty_database first_update "u ''octo''" "u ''docs''"
      second_update "empty_database\<lparr>repositories := [after_first]\<rparr>"
      "empty_database\<lparr>repositories := [after_second]\<rparr>"]
    first_upsert second_upsert
  by (simp add: empty_database_def first_update_def second_update_def same_identity_def
      after_first_def after_second_def)

subsection \<open>Search\<close>

lemma null_less_trans: "null_less x y \<Longrightarrow> null_less y z \<Longrightarrow> null_less x z"
  by (cases x; cases y; cases z) auto

lemma null_less_total: "null_less x y \<or> x = y \<or> null_less y x"
  by (cases x; cases y) auto

lemma order_before_total: "order_before a b \<or> order_before b a"
  using null_less_total [of "s_quality_score a" "s_quality_score b"]
    null_less_total [of "s_stars a" "s_stars b"]
  by (auto simp: order_before_def)

lemma order_before_trans:
  assumes "order_before a b" "order_before b c"
  shows "order_before a c"
  using assms
    null_less_trans [of "s_quality_score c" "s_quality_score b" "s_quality_score a"]
    null_less_trans [of "s_stars c" "s_stars b" "s_stars a"]
  by (auto simp: order_before_def)

lemma set_insert_row: "set (insert_row x xs) = insert x (set xs)"
  by (induction xs) auto

lemma sorted_insert_row:
  "sorted_wrt order_before xs \<Longrightarrow> sorted_wrt order_before (insert_row x xs)"
proof (induction xs)
  case Nil
  then show ?case by simp
next
  case (Cons y ys)
  show ?case
  proof (cases "order_before x y")
    case True
    have "\<forall>z\<in>set ys. order_before x z"
      using Cons.prems True by (auto intro: order_before_trans)
    with True Cons.prems show ?thesis by simp
  next
    case False
    then have "order_before y x" using order_before_total [of x y] by simp
    with False Cons show ?thesis by (auto simp: set_insert_row)
  qed
qed

lemma sorted_order_by: "sorted_wrt order_before (order_by rows)"
  unfolding order_by_def by (induction rows) (simp_all add: sorted_insert_row)

lemma set_order_by: "set (order_by rows) = set rows"
  unfolding order_by_def by (induction rows) (simp_all add: set_insert_row)

lemma sorted_wrt_take: "sorted_wrt P xs \<Longrightarrow> sorted_wrt P (take n xs)"
proof (induction xs arbitrary: n)
  case Nil
  then show ?case by simp
next
  case (Cons x xs)
  show ?case
  proof (cases n)
    case 0
    then show ?thesis by simp
  next
    case (Suc m)
    have "set (take m xs) \<subseteq> set xs" by (rule set_take_subset)
    with Cons Suc show ?thesis by auto
  qed
qed

text \<open>
  C3. For every query that the engine accepts and every combination of filters,
  \<open>search_documents\<close> returns at most 50 rows, taken from the rows of the join that match,
  in the order of the relevance rank first, then the quality score descending, then the
  star count descending.
\<close>

theorem search_documents_order:
  assumes "fts_match engine query = Some rank_of"
  shows "\<exists>rows. search_documents engine db query filters = Inr rows
           \<and> length rows \<le> 50
           \<and> sorted_wrt order_before rows
           \<and> set rows \<subseteq> set (matching_rows engine rank_of db query filters)"
proof -
  let ?rows = "take 50 (order_by (matching_rows engine rank_of db query filters))"
  have "search_documents engine db query filters = Inr ?rows"
    using assms by (simp add: search_documents_def)
  moreover have "length ?rows \<le> 50" by simp
  moreover have "sorted_wrt order_before ?rows"
    by (intro sorted_wrt_take sorted_order_by)
  moreover have "set ?rows \<subseteq> set (matching_rows engine rank_of db query filters)"
    using set_take_subset [of 50 "order_by (matching_rows engine rank_of db query filters)"]
    by (simp add: set_order_by)
  ultimately show ?thesis by blast
qed

lemma example_search:
  "map_sum id (map (\<lambda>r. (s_full_name r, s_quality_score r, s_stars r)))
     (search_documents example_engine example_database (u ''docker'') None)
   = Inr [(u ''c/z'', Some 0.9, Some 50), (u ''b/y'', Some 0.9, Some 5), (u ''a/x'', Some 0.6, Some 10)]"
  by code_simp

theorem search_documents_order_witness:
  "fts_match example_engine (u ''docker'')
     = Some (\<lambda>f. if str_in (u ''docker'') (fts_content f) then Some (- 1) else None)
   \<and> (\<exists>rows. search_documents example_engine example_database (u ''docker'') None = Inr rows
         \<and> length rows \<le> 50 \<and> sorted_wrt order_before rows
         \<and> map (\<lambda>r. (s_full_name r, s_quality_score r, s_stars r)) rows
             = [(u ''c/z'', Some 0.9, Some 50), (u ''b/y'', Some 0.9, Some 5),
                (u ''a/x'', Some 0.6, Some 10)])"
proof -
  have m: "fts_match example_engine (u ''docker'')
     = Some (\<lambda>f. if str_in (u ''docker'') (fts_content f) then Some (- 1) else None)"
    by (simp add: example_engine_def u_def)
  from search_documents_order [OF m, of example_database None]
  obtain rows where rows:
    "search_documents example_engine example_database (u ''docker'') None = Inr rows"
    "length rows \<le> 50" "sorted_wrt order_before rows"
    by blast
  from example_search rows(1)
  have mp: "map (\<lambda>r. (s_full_name r, s_quality_score r, s_stars r)) rows
      = [(u ''c/z'', Some 0.9, Some 50), (u ''b/y'', Some 0.9, Some 5), (u ''a/x'', Some 0.6, Some 10)]"
    by simp
  have "\<exists>rows. search_documents example_engine example_database (u ''docker'') None = Inr rows
         \<and> length rows \<le> 50 \<and> sorted_wrt order_before rows
         \<and> map (\<lambda>r. (s_full_name r, s_quality_score r, s_stars r)) rows
             = [(u ''c/z'', Some 0.9, Some 50), (u ''b/y'', Some 0.9, Some 5),
                (u ''a/x'', Some 0.6, Some 10)]"
    by (rule exI [of _ rows]) (intro conjI rows mp)
  with m show ?thesis by (rule conjI)
qed

section \<open>Properties of the search analytics\<close>

subsection \<open>Exact arithmetic\<close>

lemma foldl_plus_sum_list:
  "foldl (\<lambda>s e. s + f e) a xs = a + sum_list (map f xs)" for a :: rat
  by (induction xs arbitrary: a) (simp_all add: add.assoc)

lemma replayed_time_exact:
  "replayed_avg_search_time (\<lambda>x. x) entries_log query =
     sum_list (map q_search_time (filter (\<lambda>e. q_query e = query) entries_log))
       / rat_of_int (py_len (filter (\<lambda>e. q_query e = query) entries_log))"
  by (simp add: replayed_avg_search_time_def Let_def foldl_plus_sum_list)

lemma find_map_same_key:
  assumes "\<And>x. P (f x) = P x"
  shows "find P (map f xs) = map_option f (find P xs)"
  by (induction xs) (simp_all add: assms)

lemma find_append:
  "find P (xs @ ys) = (case find P xs of Some x \<Rightarrow> Some x | None \<Rightarrow> find P ys)"
  by (induction xs) simp_all

lemma find_Some_holds: "find P xs = Some x \<Longrightarrow> P x"
  by (induction xs) (auto split: if_splits)

lemma incremental_mean:
  fixes s :: rat
  assumes "n \<noteq> 0"
  shows "((s / n) * n + v) / (n + 1) = (s + v) / (n + 1)"
  using assms by simp

lemma log_search_keeps_match:
  assumes inv: "\<And>q. aggregate_matches a q"
  shows "aggregate_matches (log_search (\<lambda>x. x) a query results_count search_time clicked) q"
proof -
  let ?entry = "\<lparr>q_query = query, q_results_count = results_count,
                 q_clicked_results = clicked, q_search_time = search_time\<rparr>"
  let ?a' = "log_search (\<lambda>x. x) a query results_count search_time clicked"
  let ?old = "filter (\<lambda>e. q_query e = q) (search_queries a)"
  have log': "search_queries ?a' = search_queries a @ [?entry]"
    by (simp add: log_search_def Let_def split: option.splits)
  have entries': "filter (\<lambda>e. q_query e = q) (search_queries ?a')
                    = ?old @ (if query = q then [?entry] else [])"
    by (simp add: log')
  show ?thesis
  proof (cases "find (\<lambda>p. p_query p = query) (popular_searches a)")
    case None
    have pop': "popular_searches ?a' = popular_searches a
        @ [\<lparr>p_query = query, p_search_count = 1,
             p_avg_results_count = rat_of_int results_count, p_avg_search_time = search_time\<rparr>]"
      using None by (simp add: log_search_def Let_def)
    show ?thesis
    proof (cases "query = q")
      case True
      from inv [of q] None True have old: "?old = []"
        by (simp add: aggregate_matches_def Let_def)
      show ?thesis
        unfolding aggregate_matches_def Let_def pop' log' find_append
          replayed_avg_results_count_def replayed_time_exact
        using None True old by (simp add: py_len_def)
    next
      case False
      have old: "aggregate_matches a q" by (rule inv)
      show ?thesis
        unfolding aggregate_matches_def Let_def pop' log' find_append
          replayed_avg_results_count_def replayed_time_exact
        using False old
        by (simp add: aggregate_matches_def Let_def replayed_avg_results_count_def
            replayed_time_exact split: option.splits)
    qed
  next
    case (Some row)
    let ?upd = "\<lambda>p. if p_query p = query
       then p\<lparr>p_search_count := p_search_count row + 1,
              p_avg_results_count :=
                (p_avg_results_count row * rat_of_int (p_search_count row) + rat_of_int results_count)
                  / rat_of_int (p_search_count row + 1),
              p_avg_search_time :=
                (p_avg_search_time row * rat_of_int (p_search_count row) + search_time)
                  / rat_of_int (p_search_count row + 1)\<rparr>
       else p"
    have pop': "popular_searches ?a' = map ?upd (popular_searches a)"
      using Some by (simp add: log_search_def Let_def)
    have find': "find (\<lambda>p. p_query p = q) (popular_searches ?a')
                   = map_option ?upd (find (\<lambda>p. p_query p = q) (popular_searches a))"
      unfolding pop' by (rule find_map_same_key) simp
    show ?thesis
    proof (cases "query = q")
      case True
      let ?n = "rat_of_int (int (length ?old))"
      from inv [of q] Some True have old: "?old \<noteq> []"
        "p_search_count row = int (length ?old)"
        "p_avg_results_count row = rat_of_int (sum_list (map q_results_count ?old)) / ?n"
        "p_avg_search_time row = sum_list (map q_search_time ?old) / ?n"
        by (simp_all add: aggregate_matches_def Let_def replayed_avg_results_count_def
            replayed_time_exact py_len_def)
      have n0: "?n \<noteq> 0" using old(1) by simp
      have row: "p_query row = q" using find_Some_holds [OF Some] True by simp
      have r: "(p_avg_results_count row * ?n + rat_of_int results_count) / (?n + 1)
                = (rat_of_int (sum_list (map q_results_count ?old)) + rat_of_int results_count) / (?n + 1)"
        unfolding old(3) by (rule incremental_mean [OF n0])
      have t: "(p_avg_search_time row * ?n + search_time) / (?n + 1)
                = (sum_list (map q_search_time ?old) + search_time) / (?n + 1)"
        unfolding old(4) by (rule incremental_mean [OF n0])
      have found: "find (\<lambda>p. p_query p = q) (popular_searches ?a') = Some (?upd row)"
        unfolding find' using Some True by simp
      show ?thesis
        unfolding aggregate_matches_def Let_def found entries'
          replayed_avg_results_count_def replayed_time_exact log'
        using True row r t old(1)
        by (simp add: old(2) py_len_def add.commute)
    next
      case False
      have same: "map_option ?upd (find (\<lambda>p. p_query p = q) (popular_searches a))
                    = find (\<lambda>p. p_query p = q) (popular_searches a)"
      proof (cases "find (\<lambda>p. p_query p = q) (popular_searches a)")
        case None
        then show ?thesis by simp
      next
        case (Some r)
        from find_Some_holds [OF Some] False have "p_query r \<noteq> query" by simp
        with Some show ?thesis by simp
      qed
      have old: "aggregate_matches a q" by (rule inv)
      show ?thesis
        unfolding aggregate_matches_def Let_def find' same log'
          replayed_avg_results_count_def replayed_time_exact
        using False old
        by (simp add: aggregate_matches_def Let_def replayed_avg_results_count_def
            replayed_time_exact split: option.splits)
    qed
  qed
qed

lemma log_searches_keep_match:
  assumes "\<And>q. aggregate_matches a q"
  shows "aggregate_matches (log_searches (\<lambda>x. x) a calls) q"
  using assms
proof (induction calls arbitrary: a q)
  case Nil
  then show ?case by (simp add: log_searches_def)
next
  case (Cons call calls)
  obtain query results_count search_time where call: "call = (query, results_count, search_time)"
    by (cases call) auto
  have step: "\<And>q. aggregate_matches (log_search (\<lambda>x. x) a query results_count search_time []) q"
    using Cons.prems by (rule log_search_keeps_match)
  from Cons.IH [OF step] show ?case
    by (simp add: log_searches_def call)
qed

text \<open>
  C4 (as amended). For every sequence of \<open>log_search\<close> calls and every query text, the
  running count, \<open>avg_results_count\<close> and \<open>avg_search_time\<close> of the popular-search
  aggregate, maintained by the incremental formula, are equal to the number of log
  entries for that exact query text and to the averages computed by replaying them, when
  the arithmetic is exact (a query without log entries has no aggregate).
\<close>

theorem incremental_average_exact:
  "aggregate_matches (log_searches (\<lambda>x. x) empty_analytics calls) query"
  by (rule log_searches_keep_match) (simp add: aggregate_matches_def empty_analytics_def)

theorem incremental_average_exact_witness:
  "aggregate_matches (log_searches (\<lambda>x. x) empty_analytics eight_searches) (u ''docker'')
   \<and> map p_avg_results_count
        (popular_searches (log_searches (\<lambda>x. x) empty_analytics eight_searches)) = [29/8]"
proof -
  have "map p_avg_results_count
          (popular_searches (log_searches (\<lambda>x. x) empty_analytics eight_searches)) = [29/8]"
    by code_simp
  with incremental_average_exact [of eight_searches "u ''docker''"] show ?thesis by simp
qed

subsection \<open>Rounding to a double\<close>

lemma round_half_even_near:
  assumes "\<bar>y - rat_of_int m\<bar> < 1/2"
  shows "round_half_even y = m"
proof (cases "rat_of_int m \<le> y")
  case True
  with assms have "y < rat_of_int m + 1" by linarith
  with True have f: "floor y = m" by (simp add: floor_unique)
  from assms True have "y - rat_of_int m < 1/2" by linarith
  with f show ?thesis by (simp add: round_half_even_def Let_def)
next
  case False
  then have ym: "y < rat_of_int m" by simp
  have my: "rat_of_int m - 1/2 < y" using assms by linarith
  have "rat_of_int (m - 1) \<le> y" "y < rat_of_int (m - 1) + 1"
    using ym my by (simp_all add: of_int_diff)
  then have f: "floor y = m - 1" by (rule floor_unique)
  have "y - rat_of_int (m - 1) > 1/2" using my by (simp add: of_int_diff; linarith?)
  with f show ?thesis by (simp add: round_half_even_def Let_def)
qed

lemma ilog2_bounds:
  "1 \<le> n \<Longrightarrow> 0 \<le> ilog2 n \<and> 2 ^ nat (ilog2 n) \<le> n \<and> n < 2 * 2 ^ nat (ilog2 n)"
proof (induction n rule: ilog2.induct)
  case (1 n)
  show ?case
  proof (cases "n < 2")
    case True
    with "1.prems" show ?thesis by (subst (1 2 3) ilog2.simps) simp
  next
    case False
    then have "1 \<le> n div 2" by simp
    with "1.IH" False have ih: "0 \<le> ilog2 (n div 2)" "2 ^ nat (ilog2 (n div 2)) \<le> n div 2"
      "n div 2 < 2 * 2 ^ nat (ilog2 (n div 2))" by simp_all
    have eq: "ilog2 n = 1 + ilog2 (n div 2)" using False by (subst ilog2.simps) simp
    have p: "(2::int) ^ nat (1 + ilog2 (n div 2)) = 2 * 2 ^ nat (ilog2 (n div 2))"
      using ih(1) by (simp add: nat_add_distrib)
    show ?thesis unfolding eq p using ih by (simp; linarith)
  qed
qed

lemma ilog2_unique:
  assumes "(2::int) ^ k \<le> n" "n < 2 * 2 ^ k"
  shows "ilog2 n = int k"
proof -
  have n1: "1 \<le> n" using assms(1) one_le_power [of "2::int" k] by linarith
  from ilog2_bounds [OF n1] have b: "0 \<le> ilog2 n" "2 ^ nat (ilog2 n) \<le> n" "n < 2 * 2 ^ nat (ilog2 n)"
    by simp_all
  have "(2::int) ^ k < 2 ^ Suc (nat (ilog2 n))" using assms(1) b(3) by simp
  then have 1: "k < Suc (nat (ilog2 n))" by (simp only: power_strict_increasing_iff [of 2])
  have "(2::int) ^ nat (ilog2 n) < 2 ^ Suc k" using assms(2) b(2) by simp
  then have 2: "nat (ilog2 n) < Suc k" by (simp only: power_strict_increasing_iff [of 2])
  from 1 2 b(1) show ?thesis by linarith
qed

lemma pow2_nonneg: "0 \<le> e \<Longrightarrow> pow2 e = 2 ^ nat e"
  by (simp add: pow2_def)

lemma pow2_neg: "e < 0 \<Longrightarrow> pow2 e = 1 / 2 ^ nat (- e)"
  by (simp add: pow2_def)

lemma pow2_ge_1: "0 \<le> e \<Longrightarrow> 1 \<le> pow2 e"
  by (simp add: pow2_nonneg)

lemma pow2_le_1: "e \<le> 0 \<Longrightarrow> pow2 e \<le> 1"
  by (cases "e = 0") (simp_all add: pow2_def)

lemma floor_log2_eq:
  assumes "pow2 e \<le> x" "x < pow2 (e + 1)"
  shows "floor_log2 x = e"
proof (cases "1 \<le> x")
  case True
  have e0: "0 \<le> e"
  proof (rule ccontr)
    assume "\<not> 0 \<le> e"
    then have "pow2 (e + 1) \<le> 1" by (intro pow2_le_1) simp
    with assms(2) True show False by simp
  qed
  define k where "k = nat e"
  have pe: "pow2 e = 2 ^ k" using e0 by (simp add: pow2_nonneg k_def)
  have pe1: "pow2 (e + 1) = 2 * 2 ^ k" using e0 by (simp add: pow2_nonneg k_def nat_add_distrib)
  have "rat_of_int (2 ^ k) \<le> x" using assms(1) pe by simp
  then have lo: "(2::int) ^ k \<le> floor x" by (simp only: le_floor_iff)
  have "x < rat_of_int (2 * 2 ^ k)" using assms(2) pe1 by simp
  then have hi: "floor x < 2 * 2 ^ k" by (simp only: floor_less_iff)
  from ilog2_unique [OF lo hi] e0 True show ?thesis
    by (simp add: floor_log2_def k_def)
next
  case False
  have e0: "e < 0"
  proof (rule ccontr)
    assume "\<not> e < 0"
    then have "1 \<le> pow2 e" by (intro pow2_ge_1) simp
    with assms(1) False show False by simp
  qed
  define c where "c = nat (- e) - 1"
  have c: "nat (- e) = Suc c" using e0 by (simp add: c_def)
  have pe: "pow2 e = 1 / (2 * 2 ^ c)" using e0 by (simp add: pow2_neg c)
  have pe1: "pow2 (e + 1) = 1 / 2 ^ c"
  proof (cases "e + 1 = 0")
    case True
    then have "c = 0" by (simp add: c_def)
    with True show ?thesis by (simp add: pow2_def)
  next
    case False
    with e0 have "e + 1 < 0" by simp
    moreover have "nat (- (e + 1)) = c" using e0 by (simp add: c_def)
    ultimately show ?thesis by (simp add: pow2_neg)
  qed
  have "0 < pow2 e" by (simp add: pow2_def)
  with assms(1) have xpos: "0 < x" by simp
  have y_hi: "1 / x \<le> rat_of_int (2 * 2 ^ c)"
  proof -
    have "1 \<le> x * (2 * 2 ^ c)" using assms(1) pe by (simp add: divide_le_eq)
    then show ?thesis using xpos by (simp add: divide_le_eq mult.commute)
  qed
  have y_lo: "rat_of_int (2 ^ c) < 1 / x"
  proof -
    have "x * 2 ^ c < 1" using assms(2) pe1 by (simp add: less_divide_eq)
    then show ?thesis using xpos by (simp add: less_divide_eq mult.commute)
  qed
  from y_hi have "ceiling (1 / x) \<le> 2 * 2 ^ c" by (simp only: ceiling_le_iff)
  then have hi: "ceiling (1 / x) - 1 < 2 * 2 ^ c" by simp
  from y_lo have "2 ^ c < ceiling (1 / x)" by (simp only: less_ceiling_iff)
  then have lo: "(2::int) ^ c \<le> ceiling (1 / x) - 1" by simp
  from ilog2_unique [OF lo hi] False e0 show ?thesis
    by (simp add: floor_log2_def c_def)
qed

lemma binary64_near:
  assumes "pow2 e \<le> x" "x < pow2 (e + 1)" "- 1022 \<le> e"
    and "\<bar>x / pow2 (e - 52) - rat_of_int m\<bar> < 1/2"
  shows "binary64 x = rat_of_int m * pow2 (e - 52)"
proof -
  have "0 < pow2 e" by (simp add: pow2_def)
  with assms(1) have xpos: "0 < x" by simp
  have ax: "\<bar>x\<bar> = x" "sgn x = 1" using xpos by simp_all
  have e: "floor_log2 x = e" using assms(1,2) by (rule floor_log2_eq)
  have m: "max (e - 52) (- 1074) = e - 52" using assms(3) by simp
  have r: "round_half_even (x / pow2 (e - 52)) = m"
    using assms(4) by (rule round_half_even_near)
  have "x \<noteq> 0" using xpos by simp
  then show ?thesis by (simp only: binary64_def Let_def ax e m r if_False mult_1)
qed


subsection \<open>Eight searches in floating point\<close>

lemma binary64_zero: "binary64 0 = 0"
  by (simp add: binary64_def)

lemma binary64_0: "binary64 (4) = 4"
proof -
  have "binary64 (4) = rat_of_int 4503599627370496 * pow2 (2 - 52)"
    by (rule binary64_near) (simp_all add: pow2_def)
  then show ?thesis by (simp add: pow2_def)
qed

lemma binary64_1: "binary64 (2) = 2"
proof -
  have "binary64 (2) = rat_of_int 4503599627370496 * pow2 (1 - 52)"
    by (rule binary64_near) (simp_all add: pow2_def)
  then show ?thesis by (simp add: pow2_def)
qed

lemma binary64_2: "binary64 (9) = 9"
proof -
  have "binary64 (9) = rat_of_int 5066549580791808 * pow2 (3 - 52)"
    by (rule binary64_near) (simp_all add: pow2_def)
  then show ?thesis by (simp add: pow2_def)
qed

lemma binary64_3: "binary64 (3) = 3"
proof -
  have "binary64 (3) = rat_of_int 6755399441055744 * pow2 (1 - 52)"
    by (rule binary64_near) (simp_all add: pow2_def)
  then show ?thesis by (simp add: pow2_def)
qed

lemma binary64_4: "binary64 (14) = 14"
proof -
  have "binary64 (14) = rat_of_int 7881299347898368 * pow2 (3 - 52)"
    by (rule binary64_near) (simp_all add: pow2_def)
  then show ?thesis by (simp add: pow2_def)
qed

lemma binary64_5: "binary64 (7 / 2) = 7 / 2"
proof -
  have "binary64 (7 / 2) = rat_of_int 7881299347898368 * pow2 (1 - 52)"
    by (rule binary64_near) (simp_all add: pow2_def)
  then show ?thesis by (simp add: pow2_def)
qed

lemma binary64_6: "binary64 (19) = 19"
proof -
  have "binary64 (19) = rat_of_int 5348024557502464 * pow2 (4 - 52)"
    by (rule binary64_near) (simp_all add: pow2_def)
  then show ?thesis by (simp add: pow2_def)
qed

lemma binary64_7: "binary64 (19 / 5) = 4278419646001971 / 1125899906842624"
proof -
  have "binary64 (19 / 5) = rat_of_int 8556839292003942 * pow2 (1 - 52)"
    by (rule binary64_near) (simp_all add: pow2_def)
  then show ?thesis by (simp add: pow2_def)
qed

lemma binary64_8: "binary64 (21392098230009855 / 1125899906842624) = 19"
proof -
  have "binary64 (21392098230009855 / 1125899906842624) = rat_of_int 5348024557502464 * pow2 (4 - 52)"
    by (rule binary64_near) (simp_all add: pow2_def)
  then show ?thesis by (simp add: pow2_def)
qed

lemma binary64_9: "binary64 (24) = 24"
proof -
  have "binary64 (24) = rat_of_int 6755399441055744 * pow2 (4 - 52)"
    by (rule binary64_near) (simp_all add: pow2_def)
  then show ?thesis by (simp add: pow2_def)
qed

lemma binary64_10: "binary64 (29) = 29"
proof -
  have "binary64 (29) = rat_of_int 8162774324609024 * pow2 (4 - 52)"
    by (rule binary64_near) (simp_all add: pow2_def)
  then show ?thesis by (simp add: pow2_def)
qed

lemma binary64_11: "binary64 (29 / 7) = 4664442471205157 / 1125899906842624"
proof -
  have "binary64 (29 / 7) = rat_of_int 4664442471205157 * pow2 (2 - 52)"
    by (rule binary64_near) (simp_all add: pow2_def)
  then show ?thesis by (simp add: pow2_def)
qed

lemma binary64_12: "binary64 (32651097298436099 / 1125899906842624) = 8162774324609025 / 281474976710656"
proof -
  have "binary64 (32651097298436099 / 1125899906842624) = rat_of_int 8162774324609025 * pow2 (4 - 52)"
    by (rule binary64_near) (simp_all add: pow2_def)
  then show ?thesis by (simp add: pow2_def)
qed

lemma binary64_13: "binary64 (8162774324609025 / 281474976710656) = 8162774324609025 / 281474976710656"
proof -
  have "binary64 (8162774324609025 / 281474976710656) = rat_of_int 8162774324609025 * pow2 (4 - 52)"
    by (rule binary64_near) (simp_all add: pow2_def)
  then show ?thesis by (simp add: pow2_def)
qed

lemma binary64_14: "binary64 (8162774324609025 / 2251799813685248) = 8162774324609025 / 2251799813685248"
proof -
  have "binary64 (8162774324609025 / 2251799813685248) = rat_of_int 8162774324609025 * pow2 (1 - 52)"
    by (rule binary64_near) (simp_all add: pow2_def)
  then show ?thesis by (simp add: pow2_def)
qed

lemma binary64_15: "binary64 (29 / 8) = 29 / 8"
proof -
  have "binary64 (29 / 8) = rat_of_int 8162774324609024 * pow2 (1 - 52)"
    by (rule binary64_near) (simp_all add: pow2_def)
  then show ?thesis by (simp add: pow2_def)
qed

lemmas binary64_values = binary64_0 binary64_1 binary64_2 binary64_3 binary64_4 binary64_5 binary64_6 binary64_7 binary64_8 binary64_9 binary64_10 binary64_11 binary64_12 binary64_13 binary64_14 binary64_15

lemma log_search_new:
  assumes "popular_searches a = []"
  shows "log_search fl a q v t c =
    \<lparr>search_queries = search_queries a
        @ [\<lparr>q_query = q, q_results_count = v, q_clicked_results = c, q_search_time = t\<rparr>],
     popular_searches = [\<lparr>p_query = q, p_search_count = 1,
        p_avg_results_count = rat_of_int v, p_avg_search_time = t\<rparr>]\<rparr>"
  using assms by (simp add: log_search_def Let_def)

lemma log_search_existing:
  assumes "popular_searches a = [\<lparr>p_query = q, p_search_count = n,
        p_avg_results_count = r, p_avg_search_time = s\<rparr>]"
  shows "log_search fl a q v t c =
    \<lparr>search_queries = search_queries a
        @ [\<lparr>q_query = q, q_results_count = v, q_clicked_results = c, q_search_time = t\<rparr>],
     popular_searches = [\<lparr>p_query = q, p_search_count = n + 1,
        p_avg_results_count = fl (fl (fl (r * rat_of_int n) + rat_of_int v) / rat_of_int (n + 1)),
        p_avg_search_time = fl (fl (fl (s * rat_of_int n) + t) / rat_of_int (n + 1))\<rparr>]\<rparr>"
  using assms by (simp add: log_search_def Let_def)

lemma eight_searches_binary64:
  "log_searches binary64 empty_analytics eight_searches =
    \<lparr>search_queries = map docker_entry [0, 4, 5, 5, 5, 5, 5, 0],
     popular_searches = [\<lparr>p_query = u ''docker'', p_search_count = 8,
        p_avg_results_count = 8162774324609025 / 2251799813685248, p_avg_search_time = 0\<rparr>]\<rparr>"
proof -
  define a1 where "a1 = log_search binary64 empty_analytics (u ''docker'') 0 0 []"
  define a2 where "a2 = log_search binary64 a1 (u ''docker'') 4 0 []"
  define a3 where "a3 = log_search binary64 a2 (u ''docker'') 5 0 []"
  define a4 where "a4 = log_search binary64 a3 (u ''docker'') 5 0 []"
  define a5 where "a5 = log_search binary64 a4 (u ''docker'') 5 0 []"
  define a6 where "a6 = log_search binary64 a5 (u ''docker'') 5 0 []"
  define a7 where "a7 = log_search binary64 a6 (u ''docker'') 5 0 []"
  define a8 where "a8 = log_search binary64 a7 (u ''docker'') 0 0 []"
  have 1: "a1 = \<lparr>search_queries = map docker_entry [0],
      popular_searches = [\<lparr>p_query = u ''docker'', p_search_count = 1,
        p_avg_results_count = 0, p_avg_search_time = 0\<rparr>]\<rparr>"
    unfolding a1_def by (subst log_search_new) (simp_all add: empty_analytics_def docker_entry_def)
  have p1: "popular_searches a1 = [\<lparr>p_query = u ''docker'', p_search_count = 1,
        p_avg_results_count = 0, p_avg_search_time = 0\<rparr>]"
    by (simp add: 1)
  have 2: "a2 = \<lparr>search_queries = map docker_entry [0, 4],
      popular_searches = [\<lparr>p_query = u ''docker'', p_search_count = 2,
        p_avg_results_count = 2, p_avg_search_time = 0\<rparr>]\<rparr>"
    unfolding a2_def log_search_existing [OF p1]
    by (simp add: 1 docker_entry_def binary64_zero binary64_values)
  have p2: "popular_searches a2 = [\<lparr>p_query = u ''docker'', p_search_count = 2,
        p_avg_results_count = 2, p_avg_search_time = 0\<rparr>]"
    by (simp add: 2)
  have 3: "a3 = \<lparr>search_queries = map docker_entry [0, 4, 5],
      popular_searches = [\<lparr>p_query = u ''docker'', p_search_count = 3,
        p_avg_results_count = 3, p_avg_search_time = 0\<rparr>]\<rparr>"
    unfolding a3_def log_search_existing [OF p2]
    by (simp add: 2 docker_entry_def binary64_zero binary64_values)
  have p3: "popular_searches a3 = [\<lparr>p_query = u ''docker'', p_search_count = 3,
        p_avg_results_count = 3, p_avg_search_time = 0\<rparr>]"
    by (simp add: 3)
  have 4: "a4 = \<lparr>search_queries = map docker_entry [0, 4, 5, 5],
      popular_searches = [\<lparr>p_query = u ''docker'', p_search_count = 4,
        p_avg_results_count = 7 / 2, p_avg_search_time = 0\<rparr>]\<rparr>"
    unfolding a4_def log_search_existing [OF p3]
    by (simp add: 3 docker_entry_def binary64_zero binary64_values)
  have p4: "popular_searches a4 = [\<lparr>p_query = u ''docker'', p_search_count = 4,
        p_avg_results_count = 7 / 2, p_avg_search_time = 0\<rparr>]"
    by (simp add: 4)
  have 5: "a5 = \<lparr>search_queries = map docker_entry [0, 4, 5, 5, 5],
      popular_searches = [\<lparr>p_query = u ''docker'', p_search_count = 5,
        p_avg_results_count = 4278419646001971 / 1125899906842624, p_avg_search_time = 0\<rparr>]\<rparr>"
    unfolding a5_def log_search_existing [OF p4]
    by (simp add: 4 docker_entry_def binary64_zero binary64_values)
  have p5: "popular_searches a5 = [\<lparr>p_query = u ''docker'', p_search_count = 5,
        p_avg_results_count = 4278419646001971 / 1125899906842624, p_avg_search_time = 0\<rparr>]"
    by (simp add: 5)
  have 6: "a6 = \<lparr>search_queries = map docker_entry [0, 4, 5, 5, 5, 5],
      popular_searches = [\<lparr>p_query = u ''docker'', p_search_count = 6,
        p_avg_results_count = 4, p_avg_search_time = 0\<rparr>]\<rparr>"
    unfolding a6_def log_search_existing [OF p5]
    by (simp add: 5 docker_entry_def binary64_zero binary64_values)
  have p6: "popular_searches a6 = [\<lparr>p_query = u ''docker'', p_search_count = 6,
        p_avg_results_count = 4, p_avg_search_time = 0\<rparr>]"
    by (simp add: 6)
  have 7: "a7 = \<lparr>search_queries = map docker_entry [0, 4, 5, 5, 5, 5, 5],
      popular_searches = [\<lparr>p_query = u ''docker'', p_search_count = 7,
        p_avg_results_count = 4664442471205157 / 1125899906842624, p_avg_search_time = 0\<rparr>]\<rparr>"
    unfolding a7_def log_search_existing [OF p6]
    by (simp add: 6 docker_entry_def binary64_zero binary64_values)
  have p7: "popular_searches a7 = [\<lparr>p_query = u ''docker'', p_search_count = 7,
        p_avg_results_count = 4664442471205157 / 1125899906842624, p_avg_search_time = 0\<rparr>]"
    by (simp add: 7)
  have 8: "a8 = \<lparr>search_queries = map docker_entry [0, 4, 5, 5, 5, 5, 5, 0],
      popular_searches = [\<lparr>p_query = u ''docker'', p_search_count = 8,
        p_avg_results_count = 8162774324609025 / 2251799813685248, p_avg_search_time = 0\<rparr>]\<rparr>"
    unfolding a8_def log_search_existing [OF p7]
    by (simp add: 7 docker_entry_def binary64_zero binary64_values)
  have "log_searches binary64 empty_analytics eight_searches = a8"
    by (simp add: log_searches_def eight_searches_def a1_def a2_def a3_def a4_def a5_def a6_def
        a7_def a8_def)
  with 8 show ?thesis by simp
qed

text \<open>
  C4 as stated fails in floating point. After eight searches for one query with the
  result counts 0, 4, 5, 5, 5, 5, 5, 0, the stored \<open>avg_results_count\<close> is the double
  above 3.625 (\<open>29/8 + 2^-51\<close>, printed 3.6250000000000004), while the average of the
  log is exactly 3.625.
\<close>

theorem incremental_average_differs:
  "map p_avg_results_count (popular_searches (log_searches binary64 empty_analytics eight_searches))
     = [29/8 + 1/2^51]
   \<and> replayed_avg_results_count binary64
        (search_queries (log_searches binary64 empty_analytics eight_searches)) (u ''docker'')
     = 29/8"
  by (simp add: eight_searches_binary64 replayed_avg_results_count_def docker_entry_def
      py_len_def binary64_values)

end
